theory Spec2Isabelle
  imports Complex_Main
begin

section \<open>JavaScript values used by the scoring engine\<close>

subsection \<open>Numbers\<close>

text \<open>
  A JavaScript number is a finite value, one of the two infinities, or NaN. Finite values
  are kept as exact rationals: the rounding, overflow and underflow of IEEE doubles and the
  sign of zero are not part of the model (a zero divisor is read as +0). Every comparison
  with NaN is false, as in the language.
\<close>

datatype jsnum = Fin rat | PInf | NInf | NaN

fun js_add :: "jsnum \<Rightarrow> jsnum \<Rightarrow> jsnum" where
  "js_add NaN _ = NaN"
| "js_add _ NaN = NaN"
| "js_add (Fin a) (Fin b) = Fin (a + b)"
| "js_add PInf NInf = NaN"
| "js_add NInf PInf = NaN"
| "js_add PInf _ = PInf"
| "js_add NInf _ = NInf"
| "js_add (Fin a) PInf = PInf"
| "js_add (Fin a) NInf = NInf"

fun js_neg :: "jsnum \<Rightarrow> jsnum" where
  "js_neg (Fin a) = Fin (- a)"
| "js_neg PInf = NInf"
| "js_neg NInf = PInf"
| "js_neg NaN = NaN"

text \<open>The sign of an infinite product or quotient: \<open>True\<close> is positive.\<close>

definition signed_inf :: "bool \<Rightarrow> jsnum" where
  "signed_inf pos = (if pos then PInf else NInf)"

fun js_mul :: "jsnum \<Rightarrow> jsnum \<Rightarrow> jsnum" where
  "js_mul NaN _ = NaN"
| "js_mul _ NaN = NaN"
| "js_mul (Fin a) (Fin b) = Fin (a * b)"
| "js_mul (Fin a) PInf = (if a = 0 then NaN else signed_inf (0 < a))"
| "js_mul (Fin a) NInf = (if a = 0 then NaN else signed_inf (a < 0))"
| "js_mul PInf (Fin b) = (if b = 0 then NaN else signed_inf (0 < b))"
| "js_mul NInf (Fin b) = (if b = 0 then NaN else signed_inf (b < 0))"
| "js_mul PInf PInf = PInf"
| "js_mul PInf NInf = NInf"
| "js_mul NInf PInf = NInf"
| "js_mul NInf NInf = PInf"

fun js_div :: "jsnum \<Rightarrow> jsnum \<Rightarrow> jsnum" where
  "js_div NaN _ = NaN"
| "js_div _ NaN = NaN"
| "js_div (Fin a) (Fin b) =
     (if b = 0 then (if a = 0 then NaN else signed_inf (0 < a)) else Fin (a / b))"
| "js_div (Fin a) PInf = Fin 0"
| "js_div (Fin a) NInf = Fin 0"
| "js_div PInf (Fin b) = signed_inf (0 \<le> b)"
| "js_div NInf (Fin b) = signed_inf (b < 0)"
| "js_div PInf PInf = NaN"
| "js_div PInf NInf = NaN"
| "js_div NInf PInf = NaN"
| "js_div NInf NInf = NaN"

fun js_lt :: "jsnum \<Rightarrow> jsnum \<Rightarrow> bool" where
  "js_lt NaN _ = False"
| "js_lt _ NaN = False"
| "js_lt (Fin a) (Fin b) = (a < b)"
| "js_lt (Fin a) PInf = True"
| "js_lt (Fin a) NInf = False"
| "js_lt PInf _ = False"
| "js_lt NInf NInf = False"
| "js_lt NInf _ = True"

definition js_gt :: "jsnum \<Rightarrow> jsnum \<Rightarrow> bool" where
  "js_gt a b = js_lt b a"

definition js_ge :: "jsnum \<Rightarrow> jsnum \<Rightarrow> bool" where
  "js_ge a b = (a \<noteq> NaN \<and> b \<noteq> NaN \<and> \<not> js_lt a b)"

text \<open>\<open>Math.round\<close> rounds to the nearest integer, a tie towards plus infinity.\<close>

fun js_round :: "jsnum \<Rightarrow> jsnum" where
  "js_round (Fin a) = Fin (of_int \<lfloor>a + 1 / 2\<rfloor>)"
| "js_round x = x"

text \<open>\<open>Math.min\<close> of two arguments: NaN as soon as one of them is NaN.\<close>

definition js_min :: "jsnum \<Rightarrow> jsnum \<Rightarrow> jsnum" where
  "js_min a b = (if a = NaN \<or> b = NaN then NaN else if js_lt b a then b else a)"

definition num :: "int \<Rightarrow> jsnum" where
  "num k = Fin (of_int k)"

definition of_length :: "'a list \<Rightarrow> jsnum" where
  "of_length xs = Fin (of_nat (length xs))"

subsection \<open>Strings\<close>

text \<open>
  A string is its sequence of UTF-16 code units. \<open>null\<close> is \<open>None\<close> of an option type;
  \<open>null\<close> and the empty string are the falsy strings.
\<close>

type_synonym jsstring = "nat list"

definition truthy :: "jsstring option \<Rightarrow> bool" where
  "truthy s = (case s of None \<Rightarrow> False | Some t \<Rightarrow> t \<noteq> [])"

definition or_else :: "jsstring option \<Rightarrow> jsstring \<Rightarrow> jsstring" where
  "or_else s d = (case s of None \<Rightarrow> d | Some t \<Rightarrow> (if t = [] then d else t))"

text \<open>
  \<open>String.prototype.toLowerCase\<close> on the code units A to Z; every other code unit, in
  particular a Hangul syllable, a digit or a blank, is left as it is. The lower-casing of
  the other cased scripts is not modelled.
\<close>

definition lower_unit :: "nat \<Rightarrow> nat" where
  "lower_unit c = (if 65 \<le> c \<and> c \<le> 90 then c + 32 else c)"

definition toLowerCase :: "jsstring \<Rightarrow> jsstring" where
  "toLowerCase s = map lower_unit s"

fun starts_with :: "jsstring \<Rightarrow> jsstring \<Rightarrow> bool" where
  "starts_with s [] = True"
| "starts_with [] (k # ks) = False"
| "starts_with (c # cs) (k # ks) = (c = k \<and> starts_with cs ks)"

text \<open>\<open>String.prototype.includes\<close>: the key occurs as a contiguous run of code units.\<close>

fun str_includes :: "jsstring \<Rightarrow> jsstring \<Rightarrow> bool" where
  "str_includes [] k = (k = [])"
| "str_includes (c # cs) k = (starts_with (c # cs) k \<or> str_includes cs k)"

text \<open>White space of the language: the class \<open>\s\<close> of a regular expression, and what
  \<open>parseFloat\<close> skips in front of a literal.\<close>

definition isWhiteSpace :: "nat \<Rightarrow> bool" where
  "isWhiteSpace c =
     (c \<in> {9, 10, 11, 12, 13, 32, 160, 5760, 8232, 8233, 8239, 8287, 12288, 65279}
      \<or> (8192 \<le> c \<and> c \<le> 8202))"

text \<open>
  \<open>s.split(/\s+/)\<close>: the pieces between maximal runs of white space; a run at either end
  gives an empty piece there, and the empty string gives one empty piece. The accumulator
  holds the current piece reversed.
\<close>

function split_ws :: "jsstring \<Rightarrow> jsstring \<Rightarrow> jsstring list" where
  "split_ws acc [] = [rev acc]"
| "split_ws acc (c # cs) =
     (if isWhiteSpace c then rev acc # split_ws [] (dropWhile isWhiteSpace cs)
      else split_ws (c # acc) cs)"
  by pat_completeness auto
termination
  by (relation "measure (\<lambda>(acc, s). length s)")
     (auto simp: less_Suc_eq_le length_dropWhile_le)

subsection \<open>parseFloat\<close>

definition isDigit :: "nat \<Rightarrow> bool" where
  "isDigit c = (48 \<le> c \<and> c \<le> 57)"

definition digits_value :: "jsstring \<Rightarrow> nat" where
  "digits_value ds = foldl (\<lambda>a d. 10 * a + (d - 48)) 0 ds"

text \<open>The exponent part \<open>e\<close>, optional sign, digits; 0 when the text has none.\<close>

definition exponent_part :: "jsstring \<Rightarrow> int" where
  "exponent_part s =
     (case s of
        [] \<Rightarrow> 0
      | c # r \<Rightarrow>
          if c = 101 \<or> c = 69 then
            (case r of
               [] \<Rightarrow> 0
             | d # r' \<Rightarrow>
                 if d = 43 then
                   (if takeWhile isDigit r' = [] then 0
                    else int (digits_value (takeWhile isDigit r')))
                 else if d = 45 then
                   (if takeWhile isDigit r' = [] then 0
                    else - int (digits_value (takeWhile isDigit r')))
                 else int (digits_value (takeWhile isDigit r)))
          else 0)"

definition scale10 :: "rat \<Rightarrow> int \<Rightarrow> rat" where
  "scale10 m e = (if 0 \<le> e then m * 10 ^ nat e else m / 10 ^ nat (- e))"

text \<open>
  The longest prefix that is an unsigned decimal literal: \<open>Infinity\<close>, or digits with an
  optional fraction and exponent, or a fraction that starts with the point. NaN when there
  is none.
\<close>

definition parse_unsigned :: "jsstring \<Rightarrow> jsnum" where
  "parse_unsigned s =
     (if starts_with s [73, 110, 102, 105, 110, 105, 116, 121] then PInf
      else
        let ip = takeWhile isDigit s;
            r1 = dropWhile isDigit s;
            fp = (case r1 of [] \<Rightarrow> [] | c # r \<Rightarrow> if c = 46 then takeWhile isDigit r else []);
            r2 = (case r1 of [] \<Rightarrow> [] | c # r \<Rightarrow> if c = 46 then dropWhile isDigit r else r1)
        in if ip = [] \<and> fp = [] then NaN
           else Fin (scale10
                  (of_nat (digits_value ip) + of_nat (digits_value fp) / 10 ^ length fp)
                  (exponent_part r2)))"

definition parseFloat :: "jsstring \<Rightarrow> jsnum" where
  "parseFloat s =
     (case dropWhile isWhiteSpace s of
        [] \<Rightarrow> NaN
      | c # r \<Rightarrow>
          if c = 43 then parse_unsigned r
          else if c = 45 then js_neg (parse_unsigned r)
          else parse_unsigned (c # r))"


subsection \<open>Dates\<close>

text \<open>
  A \<open>Date\<close> is its number of milliseconds since the epoch. \<open>getHours\<close> reads the hour of
  the local clock; the host's time zone is a parameter \<open>tz\<close>, its offset from UTC in
  minutes, taken as constant (no daylight saving).
\<close>

definition getHours :: "int \<Rightarrow> int \<Rightarrow> int" where
  "getHours tz ms = ((ms + tz * 60000) div 3600000) mod 24"

section \<open>Data model (shared/schema.ts)\<close>

text \<open>
  The columns the scoring engine and the ingestion route read or write. A candidate is a
  transaction before it is stored (\<open>Omit<Transaction, "id" | "createdAt">\<close>); a stored
  transaction extends it. Decimal columns are strings, as the driver returns them.
\<close>

record candidate =
  patientId :: nat
  amount :: jsstring
  txType :: jsstring
  location :: "jsstring option"
  merchant :: "jsstring option"
  description :: "jsstring option"
  timestamp :: int

record transaction = candidate +
  tx_id :: nat
  tx_isAnomaly :: bool
  tx_riskScore :: int

record patient =
  p_id :: nat
  p_name :: jsstring
  p_riskLevel :: jsstring
  dementiaStage :: "jsstring option"
  avgMonthlySpending :: "jsstring option"

definition str_ATM :: jsstring where
  "str_ATM = [65, 84, 77]"

section \<open>AnomalyDetectionService (the anomaly scorer)\<close>

text \<open>
  The human-readable reasons are template strings in the source; a reason is kept here as
  the template it comes from, with the values the template prints. None of them is the
  empty string, so the final \<open>reasons.filter(Boolean)\<close> keeps them all.
\<close>

datatype reason =
    OverAverage jsnum
  | OverRecent jsnum
  | LargeAmount
  | HighAmount
  | Within24h nat
  | AtmWithin24h nat
  | NightTime
  | RiskKeyword jsstring
  | OnlineOrPhone
  | UnknownMerchant
  | UnusualLocation

record AnomalyDetectionResult =
  isAnomaly :: bool
  riskScore :: int
  reasons :: "reason list"

definition HIGH_RISK_KEYWORDS :: "jsstring list" where
  "HIGH_RISK_KEYWORDS =
     [[49440, 47932], [49569, 44552], [53804, 51088], [45824, 52636],
      [48372, 54744, 44032, 51077], [54144, 46300], [51452, 49885]]"

definition sum_amounts :: "jsnum list \<Rightarrow> jsnum" where
  "sum_amounts xs = foldl js_add (Fin 0) xs"

definition analyzeAmount ::
  "jsstring \<Rightarrow> jsnum \<Rightarrow> transaction list \<Rightarrow> int \<times> reason list" where
  "analyzeAmount amt avgSpending recentTransactions =
     (let transactionAmount = parseFloat amt;
          personal =
            (if js_gt avgSpending (Fin 0) then
               (let ratio = js_div transactionAmount avgSpending
                in if js_gt ratio (Fin 3) then (40, [OverAverage (js_round ratio)])
                   else if js_gt ratio (Fin 2) then (25, [OverAverage (js_round ratio)])
                   else (0, []))
             else (0, []));
          recent =
            (if 0 < length recentTransactions then
               (let recentAmounts = map (\<lambda>t. parseFloat (amount t)) recentTransactions;
                    recentAvg = js_div (sum_amounts recentAmounts) (of_length recentAmounts);
                    ratio = js_div transactionAmount recentAvg
                in if js_gt ratio (Fin 5) then (30, [OverRecent (js_round ratio)])
                   else if js_gt ratio (Fin 3) then (20, [OverRecent (js_round ratio)])
                   else (0, []))
             else (0, []));
          absolute =
            (if js_ge transactionAmount (Fin 1000000) then (35, [LargeAmount])
             else if js_ge transactionAmount (Fin 500000) then (20, [HighAmount])
             else (0, []))
      in (fst personal + fst recent + fst absolute,
          snd personal @ snd recent @ snd absolute))"

text \<open>
  \<open>setHours(getHours() - 24)\<close> moves the local clock back by 24 hours, which at a constant
  offset is 86400000 milliseconds.
\<close>

definition analyzeFrequency ::
  "'a candidate_scheme \<Rightarrow> transaction list \<Rightarrow> int \<times> reason list" where
  "analyzeFrequency tx recentTransactions =
     (let last24Hours = timestamp tx - 24 * 3600000;
          recentCount = length (filter (\<lambda>t. last24Hours \<le> timestamp t) recentTransactions);
          general =
            (if 5 \<le> recentCount then (30, [Within24h recentCount])
             else if 3 \<le> recentCount then (15, [Within24h recentCount])
             else (0, []));
          atm =
            (if txType tx = str_ATM then
               (let atmCount = length (filter
                      (\<lambda>t. txType t = str_ATM \<and> last24Hours \<le> timestamp t) recentTransactions)
                in if 3 \<le> atmCount then (25, [AtmWithin24h atmCount]) else (0, []))
             else (0, []))
      in (fst general + fst atm, snd general @ snd atm))"

definition analyzeTime :: "int \<Rightarrow> int \<Rightarrow> int \<times> reason list" where
  "analyzeTime tz ts =
     (let hour = getHours tz ts
      in if 23 \<le> hour \<or> hour \<le> 6 then (20, [NightTime]) else (0, []))"

definition analyzeMerchant ::
  "jsstring option \<Rightarrow> jsstring option \<Rightarrow> int \<times> reason list" where
  "analyzeMerchant merch descr =
     (let text = toLowerCase (or_else merch [] @ [32] @ or_else descr []);
          keyword =
            (case find (\<lambda>k. str_includes text k) HIGH_RISK_KEYWORDS of
               Some k \<Rightarrow> (25, [RiskKeyword k])
             | None \<Rightarrow> (0, []));
          online =
            (if str_includes text [50728, 46972, 51064]
                \<or> str_includes text [51064, 53552, 45367]
                \<or> str_includes text [51204, 54868]
             then (15, [OnlineOrPhone]) else (0, []));
          unknown =
            (if truthy merch
                \<and> (str_includes (or_else merch []) [50508, 49688, 50630, 51020]
                     \<or> str_includes (or_else merch []) [48120, 54869, 51064])
             then (20, [UnknownMerchant]) else (0, []))
      in (fst keyword + fst online + fst unknown,
          snd keyword @ snd online @ snd unknown))"

definition isSimilarLocation :: "jsstring \<Rightarrow> jsstring \<Rightarrow> bool" where
  "isSimilarLocation loc1 loc2 =
     (let words1 = split_ws [] (toLowerCase loc1);
          words2 = split_ws [] (toLowerCase loc2)
      in list_ex (\<lambda>word. word \<in> set words2) words1)"

definition analyzeLocation ::
  "jsstring option \<Rightarrow> transaction list \<Rightarrow> int \<times> reason list" where
  "analyzeLocation loc recentTransactions =
     (if \<not> truthy loc then (0, [])
      else
        let recentLocations = take 10 (filter truthy (map location recentTransactions))
        in if 0 < length recentLocations then
             (let isUnusualLocation =
                    \<not> list_ex (\<lambda>l. truthy l \<and> isSimilarLocation (or_else loc []) (or_else l []))
                        recentLocations
              in if isUnusualLocation then (15, [UnusualLocation]) else (0, []))
           else (0, []))"

definition detectAnomaly ::
  "int \<Rightarrow> 'a candidate_scheme \<Rightarrow> transaction list \<Rightarrow> jsnum \<Rightarrow> AnomalyDetectionResult" where
  "detectAnomaly tz tx recentTransactions patientAvgSpending =
     (let amountRisk = analyzeAmount (amount tx) patientAvgSpending recentTransactions;
          frequencyRisk = analyzeFrequency tx recentTransactions;
          timeRisk = analyzeTime tz (timestamp tx);
          merchantRisk = analyzeMerchant (merchant tx) (description tx);
          locationRisk = analyzeLocation (location tx) recentTransactions;
          summed = fst amountRisk + fst frequencyRisk + fst timeRisk
                    + fst merchantRisk + fst locationRisk;
          capped = min summed 100
      in \<lparr> isAnomaly = 30 \<le> capped,
           riskScore = capped,
           reasons = snd amountRisk @ snd frequencyRisk @ snd timeRisk
                       @ snd merchantRisk @ snd locationRisk \<rparr>)"

text \<open>
  The second scorer of the class, which the ingestion route calls for the snapshot. The
  clock \<open>now\<close> is the value of \<open>new Date()\<close> at the call.
\<close>

record risk_scores =
  frequencyScore :: jsnum
  amountScore :: jsnum
  timingScore :: jsnum
  locationScore :: jsnum

definition week_window :: "int \<Rightarrow> transaction list \<Rightarrow> transaction list" where
  "week_window now recentTransactions =
     filter (\<lambda>t. now - 7 * 24 * 60 * 60 * 1000 \<le> timestamp t) recentTransactions"

definition unique_locations :: "transaction list \<Rightarrow> nat" where
  "unique_locations txs = length (remdups (filter truthy (map location txs)))"

definition ADS_calculateRiskFactors ::
  "int \<Rightarrow> int \<Rightarrow> nat \<Rightarrow> transaction list \<Rightarrow> risk_scores" where
  "ADS_calculateRiskFactors tz now pid recentTransactions =
     (let weekTransactions = week_window now recentTransactions;
          dailyTransactionCount = js_div (of_length weekTransactions) (Fin 7);
          frequency = js_min (js_mul dailyTransactionCount (Fin 20)) (Fin 100);
          amounts = map (\<lambda>t. parseFloat (amount t)) weekTransactions;
          avgAmount = (if 0 < length amounts
                       then js_div (sum_amounts amounts) (of_length amounts) else Fin 0);
          amountS = js_min (js_div avgAmount (Fin 10000)) (Fin 100);
          nightTransactions = filter
             (\<lambda>t. let hour = getHours tz (timestamp t) in 23 \<le> hour \<or> hour \<le> 6)
             weekTransactions;
          timing = js_mul (js_div (of_length nightTransactions) (of_length weekTransactions))
                     (Fin 100);
          locationS = js_min (js_mul (Fin (of_nat (unique_locations weekTransactions))) (Fin 15))
                        (Fin 100)
      in \<lparr> frequencyScore = js_round frequency,
           amountScore = js_round amountS,
           timingScore = js_round timing,
           locationScore = js_round locationS \<rparr>)"


section \<open>RiskProfilingService (the risk profiler)\<close>

datatype risk_level = HighRisk | MediumRisk | LowRisk

text \<open>The three labels as the strings the code stores and compares.\<close>

definition level_string :: "risk_level \<Rightarrow> jsstring" where
  "level_string l =
     (case l of
        HighRisk \<Rightarrow> [44256, 50948, 54744]
      | MediumRisk \<Rightarrow> [51473, 50948, 54744]
      | LowRisk \<Rightarrow> [51200, 50948, 54744])"

record risk_factors =
  frequencyFactor :: jsnum
  amountFactor :: jsnum
  timingFactor :: jsnum
  locationFactor :: jsnum

datatype recommendation =
    ContactPatientNow
  | AskBankToRestrict
  | LargeTransfersSeen
  | TooFrequent
  | WatchClosely
  | ReviewRegularly
  | NightActivityUp
  | StablePattern
  | KeepWeeklyMonitoring
  | FrequentAtm
  | AnomaliesSeen nat

record RiskProfile =
  riskLevel :: risk_level
  totalScore :: jsnum
  factors :: risk_factors
  recommendations :: "recommendation list"

definition getDementiaRiskMultiplier :: "jsstring option \<Rightarrow> jsnum" where
  "getDementiaRiskMultiplier stage =
     (if \<not> truthy stage then Fin 1
      else
        let s = toLowerCase (or_else stage [])
        in if s = [44221, 46020] then Fin (11 / 10)
           else if s = [51473, 46321, 46020] then Fin (13 / 10)
           else if s = [51473, 51613] then Fin (3 / 2)
           else Fin 1)"

text \<open>
  The four base scores of \<open>calculateRiskFactors\<close>, each over the transactions of the
  trailing seven days, in the order of the source. (The source also selects the
  transactions of the trailing thirty days and never reads the selection.)
\<close>

definition frequencyBase :: "transaction list \<Rightarrow> jsnum" where
  "frequencyBase weekTransactions =
     (let dailyTransactionCount = js_div (of_length weekTransactions) (Fin 7)
      in if js_gt dailyTransactionCount (Fin 5) then Fin 85
         else if js_gt dailyTransactionCount (Fin 3) then Fin 60
         else if js_gt dailyTransactionCount (Fin 2) then Fin 35
         else Fin 15)"

definition amountBase :: "patient \<Rightarrow> transaction list \<Rightarrow> jsnum" where
  "amountBase p weekTransactions =
     (let amounts = map (\<lambda>t. parseFloat (amount t)) weekTransactions;
          totalWeeklyAmount = sum_amounts amounts;
          monthly = parseFloat (or_else (avgMonthlySpending p) [48])
      in if js_gt monthly (Fin 0) then
           (let weeklyRatio = js_div (js_mul totalWeeklyAmount (Fin 4)) monthly
            in if js_gt weeklyRatio (Fin 3) then Fin 85
               else if js_gt weeklyRatio (Fin 2) then Fin 60
               else if js_gt weeklyRatio (Fin (3 / 2)) then Fin 40
               else Fin 20)
         else
           (if js_gt totalWeeklyAmount (Fin 1000000) then Fin 80
            else if js_gt totalWeeklyAmount (Fin 500000) then Fin 50
            else Fin 20))"

definition isNightHour :: "int \<Rightarrow> bool" where
  "isNightHour hour = (22 \<le> hour \<or> hour \<le> 7)"

definition nightTransactions :: "int \<Rightarrow> transaction list \<Rightarrow> transaction list" where
  "nightTransactions tz weekTransactions =
     filter (\<lambda>t. isNightHour (getHours tz (timestamp t))) weekTransactions"

definition timingBase :: "int \<Rightarrow> transaction list \<Rightarrow> jsnum" where
  "timingBase tz weekTransactions =
     (if 0 < length weekTransactions
      then js_round (js_mul
             (js_div (of_length (nightTransactions tz weekTransactions))
                     (of_length weekTransactions))
             (Fin 100))
      else Fin 0)"

definition locationBase :: "transaction list \<Rightarrow> jsnum" where
  "locationBase weekTransactions =
     (let n = unique_locations weekTransactions
      in if 10 < n then Fin 80
         else if 7 < n then Fin 60
         else if 5 < n then Fin 40
         else Fin 20)"

text \<open>\<open>Math.min(Math.round(score * dementiaMultiplier), 100)\<close>.\<close>

definition adjust :: "jsnum \<Rightarrow> jsnum \<Rightarrow> jsnum" where
  "adjust score dementiaMultiplier = js_min (js_round (js_mul score dementiaMultiplier)) (Fin 100)"

definition RPS_calculateRiskFactors ::
  "int \<Rightarrow> int \<Rightarrow> patient \<Rightarrow> transaction list \<Rightarrow> risk_factors" where
  "RPS_calculateRiskFactors tz now p recentTransactions =
     (let weekTransactions = week_window now recentTransactions;
          dementiaMultiplier = getDementiaRiskMultiplier (dementiaStage p)
      in \<lparr> frequencyFactor = adjust (frequencyBase weekTransactions) dementiaMultiplier,
           amountFactor = adjust (amountBase p weekTransactions) dementiaMultiplier,
           timingFactor = adjust (timingBase tz weekTransactions) dementiaMultiplier,
           locationFactor = adjust (locationBase weekTransactions) dementiaMultiplier \<rparr>)"

definition calculateTotalScore :: "risk_factors \<Rightarrow> jsnum" where
  "calculateTotalScore fs =
     js_round
       (js_add
          (js_add
             (js_add (js_mul (frequencyFactor fs) (Fin (3 / 10)))
                     (js_mul (amountFactor fs) (Fin (4 / 10))))
             (js_mul (timingFactor fs) (Fin (15 / 100))))
          (js_mul (locationFactor fs) (Fin (15 / 100))))"

definition determineRiskLevel :: "jsnum \<Rightarrow> risk_level" where
  "determineRiskLevel score =
     (if js_ge score (Fin 70) then HighRisk
      else if js_ge score (Fin 40) then MediumRisk
      else LowRisk)"

definition generateRecommendations ::
  "risk_level \<Rightarrow> risk_factors \<Rightarrow> transaction list \<Rightarrow> recommendation list" where
  "generateRecommendations level fs recentTransactions =
     (case level of
        HighRisk \<Rightarrow>
          [ContactPatientNow, AskBankToRestrict]
          @ (if js_gt (amountFactor fs) (Fin 70) then [LargeTransfersSeen] else [])
          @ (if js_gt (frequencyFactor fs) (Fin 70) then [TooFrequent] else [])
      | MediumRisk \<Rightarrow>
          [WatchClosely, ReviewRegularly]
          @ (if js_gt (timingFactor fs) (Fin 50) then [NightActivityUp] else [])
      | LowRisk \<Rightarrow> [StablePattern, KeepWeeklyMonitoring])
     @ (if 3 < length (filter (\<lambda>t. txType t = str_ATM) recentTransactions)
        then [FrequentAtm] else [])
     @ (if 0 < length (filter tx_isAnomaly recentTransactions)
        then [AnomaliesSeen (length (filter tx_isAnomaly recentTransactions))] else [])"

text \<open>
  \<open>assessRisk\<close>; its optional third argument, the latest stored assessment, is never read
  by the source and is left out.
\<close>

definition assessRisk :: "int \<Rightarrow> int \<Rightarrow> patient \<Rightarrow> transaction list \<Rightarrow> RiskProfile" where
  "assessRisk tz now p recentTransactions =
     (let fs = RPS_calculateRiskFactors tz now p recentTransactions;
          score = calculateTotalScore fs;
          level = determineRiskLevel score
      in \<lparr> riskLevel = level,
           totalScore = score,
           factors = fs,
           recommendations = generateRecommendations level fs recentTransactions \<rparr>)"

datatype priority = PriorityHigh | PriorityMedium | PriorityLow

definition getAlertPriority :: "jsstring \<Rightarrow> priority" where
  "getAlertPriority level =
     (if level = level_string HighRisk then PriorityHigh
      else if level = level_string MediumRisk then PriorityMedium
      else PriorityLow)"

text \<open>The settings argument of \<open>shouldSendImmediateAlert\<close>, which may be absent.\<close>

record alert_gate =
  threshold :: jsstring
  immediateAlerts :: bool

definition shouldSendImmediateAlert :: "jsnum \<Rightarrow> jsnum \<Rightarrow> alert_gate option \<Rightarrow> bool" where
  "shouldSendImmediateAlert score transactionAmount alertSettings =
     (case alertSettings of
        None \<Rightarrow> False
      | Some s \<Rightarrow>
          if \<not> immediateAlerts s then False
          else
            let limit = parseFloat (or_else (Some (threshold s)) [49, 48, 48, 48, 48, 48])
            in js_ge score (Fin 70) \<or> js_ge transactionAmount limit)"


section \<open>Storage (server/storage.ts)\<close>

text \<open>
  The tables as lists of rows in insertion order, with the sequences that number the rows.
  Columns that no decision reads (timestamps of creation, the read and resolved flags, the
  text of an alert message, notification channels) are left out. An insert succeeds, except
  that an integer column takes a finite whole number in the 32-bit range only: any other
  value makes the statement fail, which the route sees as an exception. The normalisation
  of a decimal string to two fraction digits by the database is not modelled.
\<close>

record alert =
  a_id :: nat
  a_patientId :: nat
  a_transactionId :: "nat option"
  a_type :: jsstring
  a_title :: jsstring
  a_severity :: priority

record risk_assessment =
  ra_id :: nat
  ra_patientId :: nat
  ra_frequencyScore :: int
  ra_amountScore :: int
  ra_timingScore :: int
  ra_locationScore :: int
  ra_totalScore :: int

record alert_settings =
  as_caregiverId :: jsstring
  as_patientId :: nat
  as_immediateAlerts :: "bool option"
  as_threshold :: "jsstring option"

record storage =
  patients :: "patient list"
  transactions :: "transaction list"
  alerts :: "alert list"
  riskAssessments :: "risk_assessment list"
  alertSettings :: "alert_settings list"
  transactionSeq :: nat
  alertSeq :: nat
  assessmentSeq :: nat

definition int_column :: "jsnum \<Rightarrow> int option" where
  "int_column x =
     (case x of
        Fin r \<Rightarrow>
          if r = of_int \<lfloor>r\<rfloor> \<and> - 2147483648 \<le> \<lfloor>r\<rfloor> \<and> \<lfloor>r\<rfloor> \<le> 2147483647
          then Some \<lfloor>r\<rfloor> else None
      | _ \<Rightarrow> None)"

definition getPatient :: "storage \<Rightarrow> nat \<Rightarrow> patient option" where
  "getPatient st pid = find (\<lambda>p. p_id p = pid) (patients st)"

text \<open>
  The most recent transactions of a patient, newest first. Rows with equal timestamps come
  in an order the database does not fix; here the later insertion comes first.
\<close>

definition getTransactions :: "storage \<Rightarrow> nat \<Rightarrow> nat \<Rightarrow> transaction list" where
  "getTransactions st pid limit =
     take limit (rev (sort_key timestamp (filter (\<lambda>t. patientId t = pid) (transactions st))))"

definition getAlertSettings :: "storage \<Rightarrow> jsstring \<Rightarrow> nat \<Rightarrow> alert_settings option" where
  "getAlertSettings st caregiver pid =
     find (\<lambda>s. as_caregiverId s = caregiver \<and> as_patientId s = pid) (alertSettings st)"

definition createTransaction ::
  "storage \<Rightarrow> candidate \<Rightarrow> bool \<Rightarrow> int \<Rightarrow> transaction \<times> storage" where
  "createTransaction st c anomalous score =
     (let row = candidate.extend c
                  \<lparr> tx_id = transactionSeq st, tx_isAnomaly = anomalous, tx_riskScore = score \<rparr>
      in (row, st\<lparr> transactions := transactions st @ [row],
                   transactionSeq := Suc (transactionSeq st) \<rparr>))"

definition createAlert ::
  "storage \<Rightarrow> nat \<Rightarrow> nat \<Rightarrow> jsstring \<Rightarrow> jsstring \<Rightarrow> priority \<Rightarrow> storage" where
  "createAlert st pid txid ty title sev =
     st\<lparr> alerts := alerts st @
            [\<lparr> a_id = alertSeq st, a_patientId = pid, a_transactionId = Some txid,
               a_type = ty, a_title = title, a_severity = sev \<rparr>],
         alertSeq := Suc (alertSeq st) \<rparr>"

definition createRiskAssessment ::
  "storage \<Rightarrow> nat \<Rightarrow> risk_scores \<Rightarrow> jsnum \<Rightarrow> storage option" where
  "createRiskAssessment st pid scores score =
     (case int_column (frequencyScore scores) of None \<Rightarrow> None | Some f \<Rightarrow>
     (case int_column (amountScore scores) of None \<Rightarrow> None | Some a \<Rightarrow>
     (case int_column (timingScore scores) of None \<Rightarrow> None | Some t \<Rightarrow>
     (case int_column (locationScore scores) of None \<Rightarrow> None | Some l \<Rightarrow>
     (case int_column score of None \<Rightarrow> None | Some s \<Rightarrow>
        Some (st\<lparr> riskAssessments := riskAssessments st @
                     [\<lparr> ra_id = assessmentSeq st, ra_patientId = pid,
                        ra_frequencyScore = f, ra_amountScore = a, ra_timingScore = t,
                        ra_locationScore = l, ra_totalScore = s \<rparr>],
                   assessmentSeq := Suc (assessmentSeq st) \<rparr>))))))"

definition updatePatient :: "storage \<Rightarrow> nat \<Rightarrow> jsstring \<Rightarrow> storage" where
  "updatePatient st pid level =
     st\<lparr> patients := map (\<lambda>p. if p_id p = pid then p\<lparr> p_riskLevel := level \<rparr> else p)
                          (patients st) \<rparr>"

section \<open>The ingestion route (server/routes.ts, POST /api/patients/:id/transactions)\<close>

text \<open>
  The handler after the request body has been parsed: \<open>body\<close> is the candidate with its
  timestamp set, the patient id comes from the URL. The outcome is the HTTP answer and the
  storage as the handler leaves it; the statements run without a database transaction, so
  what was written before an exception stays written.
\<close>

datatype response =
    NotFound
  | ServerError
  | Created transaction AnomalyDetectionResult

definition DEMO_USER_ID :: jsstring where
  "DEMO_USER_ID = [100, 101, 109, 111, 45, 117, 115, 101, 114, 45, 49, 50, 51]"

definition str_urgent :: jsstring where
  "str_urgent = [44596, 44553]"

definition alertTypeOf :: "int \<Rightarrow> jsstring" where
  "alertTypeOf score =
     (if 70 \<le> score then str_urgent
      else if 50 \<le> score then level_string HighRisk
      else level_string MediumRisk)"

definition averageScore :: "risk_scores \<Rightarrow> jsnum" where
  "averageScore riskFactors =
     js_round (js_div
       (js_add (js_add (js_add (frequencyScore riskFactors) (amountScore riskFactors))
                       (timingScore riskFactors))
               (locationScore riskFactors))
       (Fin 4))"

definition newRiskLevelOf :: "jsnum \<Rightarrow> jsstring" where
  "newRiskLevelOf score =
     (if js_ge score (Fin 70) then level_string HighRisk
      else if js_ge score (Fin 40) then level_string MediumRisk
      else level_string LowRisk)"

definition postTransaction ::
  "int \<Rightarrow> int \<Rightarrow> storage \<Rightarrow> nat \<Rightarrow> candidate \<Rightarrow> response \<times> storage" where
  "postTransaction tz now st pid body =
     (let transactionData = body\<lparr> patientId := pid \<rparr>;
          recentTransactions = getTransactions st pid 20
      in case getPatient st pid of
           None \<Rightarrow> (NotFound, st)
         | Some p \<Rightarrow>
             let avgSpending = js_div (parseFloat (or_else (avgMonthlySpending p) [48])) (Fin 30);
                 anomalyResult = detectAnomaly tz transactionData recentTransactions avgSpending;
                 created = createTransaction st transactionData
                             (isAnomaly anomalyResult) (riskScore anomalyResult);
                 tx = fst created;
                 st1 = snd created
             in if isAnomaly anomalyResult then
                  (let alertSettings = getAlertSettings st1 DEMO_USER_ID pid;
                       alertType = alertTypeOf (riskScore anomalyResult);
                       st2 = createAlert st1 pid (tx_id tx) alertType
                               (alertType @ [58, 32] @ txType tx
                                  @ [32, 44144, 47000, 32, 44048, 51648])
                               (getAlertPriority
                                  (if alertType = str_urgent then level_string HighRisk
                                   else alertType));
                       riskFactors = ADS_calculateRiskFactors tz now pid
                                       (recentTransactions @ [tx]);
                       score = averageScore riskFactors
                   in case createRiskAssessment st2 pid riskFactors score of
                        None \<Rightarrow> (ServerError, st2)
                      | Some st3 \<Rightarrow>
                          (Created tx anomalyResult,
                           updatePatient st3 pid (newRiskLevelOf score)))
                else (Created tx anomalyResult, st1))"


section \<open>Notions the properties are stated with\<close>

text \<open>A score that is a finite number between 0 and 100.\<close>

definition in_0_100 :: "jsnum \<Rightarrow> bool" where
  "in_0_100 x = (case x of Fin r \<Rightarrow> 0 \<le> r \<and> r \<le> 100 | _ \<Rightarrow> False)"

text \<open>The local clock time of a date, in milliseconds since local midnight.\<close>

definition clock_ms :: "int \<Rightarrow> int \<Rightarrow> int" where
  "clock_ms tz ms = (ms + tz * 60000) mod 86400000"

text \<open>
  The night window as the specification words it, from 22:00 to 07:00 with both ends, and
  the share of a transaction list that falls into it, in percent.
\<close>

definition spec_inNightWindow :: "int \<Rightarrow> int \<Rightarrow> bool" where
  "spec_inNightWindow tz ms = (22 * 3600000 \<le> clock_ms tz ms \<or> clock_ms tz ms \<le> 7 * 3600000)"

definition spec_nightPercentage :: "int \<Rightarrow> transaction list \<Rightarrow> jsnum" where
  "spec_nightPercentage tz txs =
     js_mul (js_div (of_length (filter (\<lambda>t. spec_inNightWindow tz (timestamp t)) txs))
                    (of_length txs))
            (Fin 100)"

text \<open>The window the code counts: from 22:00 up to, but not including, 08:00.\<close>

definition code_inNightWindow :: "int \<Rightarrow> int \<Rightarrow> bool" where
  "code_inNightWindow tz ms = (22 * 3600000 \<le> clock_ms tz ms \<or> clock_ms tz ms < 8 * 3600000)"

text \<open>The three dementia stages the multiplier knows, as the stored strings.\<close>

definition stage_mild :: "jsstring option" where
  "stage_mild = Some [44221, 46020]"

definition stage_moderate :: "jsstring option" where
  "stage_moderate = Some [51473, 46321, 46020]"

definition stage_severe :: "jsstring option" where
  "stage_severe = Some [51473, 51613]"

section \<open>Example inputs\<close>

text \<open>
  An ATM withdrawal of 1,200,000 at 02:00 UTC on the first of January 1970, with no
  merchant, description or location.
\<close>

definition night_withdrawal :: candidate where
  "night_withdrawal =
     \<lparr> patientId = 1, amount = [49, 50, 48, 48, 48, 48, 48], txType = str_ATM,
       location = None, merchant = None, description = None, timestamp = 7200000 \<rparr>"

text \<open>A card payment of 5,000 at 07:30 UTC.\<close>

definition morning_payment :: transaction where
  "morning_payment =
     \<lparr> patientId = 1, amount = [53, 48, 48, 48], txType = [99, 97, 114, 100],
       location = None, merchant = None, description = None, timestamp = 27000000,
       tx_id = 1, tx_isAnomaly = False, tx_riskScore = 0 \<rparr>"

text \<open>A card payment of 5,000 at 12:00 UTC.\<close>

definition noon_payment :: transaction where
  "noon_payment =
     \<lparr> patientId = 1, amount = [53, 48, 48, 48], txType = [99, 97, 114, 100],
       location = None, merchant = None, description = None, timestamp = 43200000,
       tx_id = 2, tx_isAnomaly = False, tx_riskScore = 0 \<rparr>"

text \<open>
  A patient in the severe stage with an average monthly spending of 900,000, and a store
  that holds this patient, no transaction yet, and the caregiver's settings with immediate
  alerts switched off.
\<close>

definition severe_patient :: patient where
  "severe_patient =
     \<lparr> p_id = 1, p_name = [75, 105, 109], p_riskLevel = level_string LowRisk,
       dementiaStage = stage_severe, avgMonthlySpending = Some [57, 48, 48, 48, 48, 48] \<rparr>"

definition muted_store :: storage where
  "muted_store =
     \<lparr> patients = [severe_patient], transactions = [], alerts = [], riskAssessments = [],
       alertSettings =
         [\<lparr> as_caregiverId = DEMO_USER_ID, as_patientId = 1,
            as_immediateAlerts = Some False, as_threshold = Some [49, 48, 48, 48, 48, 48] \<rparr>],
       transactionSeq = 1, alertSeq = 1, assessmentSeq = 1 \<rparr>"

definition stored_withdrawal :: transaction where
  "stored_withdrawal =
     candidate.extend night_withdrawal
       \<lparr> tx_id = 1, tx_isAnomaly = True, tx_riskScore = 95 \<rparr>"

definition open_gate :: alert_gate where
  "open_gate = \<lparr> threshold = [49, 48, 48, 48, 48, 48], immediateAlerts = True \<rparr>"


text \<open>The store after the withdrawal has been posted at its own time.\<close>

definition muted_store_after :: storage where
  "muted_store_after =
     \<lparr> patients = [severe_patient\<lparr> p_riskLevel := level_string MediumRisk \<rparr>],
       transactions = [stored_withdrawal],
       alerts =
         [\<lparr> a_id = 1, a_patientId = 1, a_transactionId = Some 1, a_type = str_urgent,
            a_title = str_urgent @ [58, 32] @ str_ATM @ [32, 44144, 47000, 32, 44048, 51648],
            a_severity = PriorityHigh \<rparr>],
       riskAssessments =
         [\<lparr> ra_id = 1, ra_patientId = 1, ra_frequencyScore = 3, ra_amountScore = 100,
            ra_timingScore = 100, ra_locationScore = 0, ra_totalScore = 51 \<rparr>],
       alertSettings = alertSettings muted_store,
       transactionSeq = 2, alertSeq = 2, assessmentSeq = 2 \<rparr>"

section \<open>Evaluation lemmas\<close>

lemma parseFloat_1200000: "parseFloat [49, 50, 48, 48, 48, 48, 48] = Fin 1200000"
  by (simp add: parseFloat_def parse_unsigned_def isDigit_def isWhiteSpace_def
        digits_value_def scale10_def exponent_part_def)

lemma parseFloat_100000: "parseFloat [49, 48, 48, 48, 48, 48] = Fin 100000"
  by (simp add: parseFloat_def parse_unsigned_def isDigit_def isWhiteSpace_def
        digits_value_def scale10_def exponent_part_def)

lemma analyzeTime_hour_2: "getHours tz ts = 2 \<Longrightarrow> analyzeTime tz ts = (20, [NightTime])"
  by (simp add: analyzeTime_def Let_def)

lemma analyzeMerchant_absent: "analyzeMerchant None None = (0, [])"
  by (simp add: analyzeMerchant_def or_else_def toLowerCase_def lower_unit_def
        HIGH_RISK_KEYWORDS_def truthy_def Let_def)

lemma analyzeLocation_absent: "analyzeLocation None xs = (0, [])"
  by (simp add: analyzeLocation_def truthy_def)

lemma getHours_night_withdrawal: "getHours 0 (timestamp night_withdrawal) = 2"
  by (simp add: getHours_def night_withdrawal_def)

section \<open>The anomaly scorer: threshold and cap\<close>

lemma analyzeAmount_nonneg: "0 \<le> fst (analyzeAmount a avg xs)"
  by (simp add: analyzeAmount_def Let_def)

lemma analyzeFrequency_nonneg: "0 \<le> fst (analyzeFrequency tx xs)"
  by (simp add: analyzeFrequency_def Let_def)

lemma analyzeTime_nonneg: "0 \<le> fst (analyzeTime tz ts)"
  by (simp add: analyzeTime_def Let_def)

lemma analyzeMerchant_nonneg: "0 \<le> fst (analyzeMerchant m d)"
  by (simp add: analyzeMerchant_def Let_def split: option.splits)

lemma analyzeLocation_nonneg: "0 \<le> fst (analyzeLocation l xs)"
  by (simp add: analyzeLocation_def Let_def)

lemma riskScore_bounds:
  "0 \<le> riskScore (detectAnomaly tz tx xs avg) \<and> riskScore (detectAnomaly tz tx xs avg) \<le> 100"
proof -
  have "0 \<le> fst (analyzeAmount (amount tx) avg xs) + fst (analyzeFrequency tx xs)
            + fst (analyzeTime tz (timestamp tx))
            + fst (analyzeMerchant (merchant tx) (description tx))
            + fst (analyzeLocation (location tx) xs)"
    using analyzeAmount_nonneg [of "amount tx" avg xs] analyzeFrequency_nonneg [of tx xs]
      analyzeTime_nonneg [of tz "timestamp tx"]
      analyzeMerchant_nonneg [of "merchant tx" "description tx"]
      analyzeLocation_nonneg [of "location tx" xs]
    by linarith
  then show ?thesis
    by (simp add: detectAnomaly_def Let_def)
qed

lemma detectAnomaly_night_withdrawal:
  "detectAnomaly 0 night_withdrawal [] (Fin 100000) =
     \<lparr> isAnomaly = True, riskScore = 95,
       reasons = [OverAverage (Fin 12), LargeAmount, NightTime] \<rparr>"
proof -
  have amt: "analyzeAmount (amount night_withdrawal) (Fin 100000) []
               = (75, [OverAverage (Fin 12), LargeAmount])"
    by (simp add: analyzeAmount_def night_withdrawal_def parseFloat_1200000 js_gt_def
          js_ge_def Let_def floor_eq_iff)
  have freq: "analyzeFrequency night_withdrawal [] = (0, [])"
    by (simp add: analyzeFrequency_def Let_def)
  have tim: "analyzeTime 0 (timestamp night_withdrawal) = (20, [NightTime])"
    by (rule analyzeTime_hour_2) (rule getHours_night_withdrawal)
  have mer: "analyzeMerchant (merchant night_withdrawal) (description night_withdrawal) = (0, [])"
    by (simp add: night_withdrawal_def analyzeMerchant_absent)
  have loc: "analyzeLocation (location night_withdrawal) [] = (0, [])"
    by (simp add: night_withdrawal_def analyzeLocation_absent)
  show ?thesis
    by (simp add: detectAnomaly_def Let_def amt freq tim mer loc)
qed

text \<open>
  C3. Whatever the candidate, the history and the historical average, the scorer reports
  an anomaly exactly when the risk score it reports is at least 30.
\<close>

theorem detectAnomaly_threshold:
  "isAnomaly (detectAnomaly tz tx xs avg) = (30 \<le> riskScore (detectAnomaly tz tx xs avg))"
  by (simp add: detectAnomaly_def Let_def)

theorem detectAnomaly_threshold_witness:
  "isAnomaly (detectAnomaly 0 night_withdrawal [] (Fin 100000))
   \<and> 30 \<le> riskScore (detectAnomaly 0 night_withdrawal [] (Fin 100000))"
  using detectAnomaly_threshold [of 0 night_withdrawal "[]" "Fin 100000"]
  by (simp add: detectAnomaly_night_withdrawal)


text \<open>
  C6. The worked example of the scorer: an amount of 1,200,000, type ATM, local hour 2, no
  merchant, description or location, an empty history and a historical average of 100,000.
  The amount part is 40 + 35 = 75, the timing part is 20, the other parts are 0, the risk
  score is 95 and the transaction is an anomaly.
\<close>

theorem detectAnomaly_example:
  assumes "getHours tz (timestamp tx) = 2"
    and "amount tx = [49, 50, 48, 48, 48, 48, 48]"
    and "txType tx = str_ATM"
    and "merchant tx = None" and "description tx = None" and "location tx = None"
  shows "fst (analyzeAmount (amount tx) (Fin 100000) []) = 40 + 35
         \<and> fst (analyzeTime tz (timestamp tx)) = 20
         \<and> fst (analyzeFrequency tx []) = 0
         \<and> fst (analyzeMerchant (merchant tx) (description tx)) = 0
         \<and> fst (analyzeLocation (location tx) []) = 0
         \<and> riskScore (detectAnomaly tz tx [] (Fin 100000)) = 95
         \<and> isAnomaly (detectAnomaly tz tx [] (Fin 100000))"
proof -
  have amt: "fst (analyzeAmount (amount tx) (Fin 100000) []) = 75"
    by (simp add: analyzeAmount_def assms(2) parseFloat_1200000 js_gt_def js_ge_def Let_def)
  have freq: "fst (analyzeFrequency tx []) = 0"
    by (simp add: analyzeFrequency_def Let_def)
  have tim: "fst (analyzeTime tz (timestamp tx)) = 20"
    by (simp add: analyzeTime_hour_2 [OF assms(1)])
  have mer: "fst (analyzeMerchant (merchant tx) (description tx)) = 0"
    by (simp add: assms(4,5) analyzeMerchant_absent)
  have loc: "fst (analyzeLocation (location tx) []) = 0"
    by (simp add: assms(6) analyzeLocation_absent)
  show ?thesis
    by (simp add: detectAnomaly_def Let_def amt freq tim mer loc)
qed

theorem detectAnomaly_example_witness:
  "getHours 0 (timestamp night_withdrawal) = 2
   \<and> amount night_withdrawal = [49, 50, 48, 48, 48, 48, 48]
   \<and> txType night_withdrawal = str_ATM
   \<and> merchant night_withdrawal = None \<and> description night_withdrawal = None
   \<and> location night_withdrawal = None
   \<and> riskScore (detectAnomaly 0 night_withdrawal [] (Fin 100000)) = 95
   \<and> isAnomaly (detectAnomaly 0 night_withdrawal [] (Fin 100000))"
proof -
  have h: "amount night_withdrawal = [49, 50, 48, 48, 48, 48, 48]"
    "txType night_withdrawal = str_ATM"
    "merchant night_withdrawal = None" "description night_withdrawal = None"
    "location night_withdrawal = None"
    by (simp_all add: night_withdrawal_def)
  from detectAnomaly_example [OF getHours_night_withdrawal h] getHours_night_withdrawal h
  show ?thesis by simp
qed


section \<open>The risk profiler: tiers and the alert predicate\<close>

text \<open>
  C5. The tiers of the total score: from 0 up to, not including, 40 the level is low; from
  40 up to, not including, 70 it is medium; from 70 to 100 it is high. In particular 70 is
  high and 69 is medium.
\<close>

theorem determineRiskLevel_tiers:
  "(0 \<le> r \<and> r < 40 \<longrightarrow> determineRiskLevel (Fin r) = LowRisk)
   \<and> (40 \<le> r \<and> r < 70 \<longrightarrow> determineRiskLevel (Fin r) = MediumRisk)
   \<and> (70 \<le> r \<and> r \<le> 100 \<longrightarrow> determineRiskLevel (Fin r) = HighRisk)
   \<and> determineRiskLevel (Fin 70) = HighRisk
   \<and> determineRiskLevel (Fin 69) = MediumRisk"
  by (simp add: determineRiskLevel_def js_ge_def)

theorem determineRiskLevel_tiers_witness:
  "determineRiskLevel (Fin 0) = LowRisk \<and> determineRiskLevel (Fin 39) = LowRisk
   \<and> determineRiskLevel (Fin 40) = MediumRisk \<and> determineRiskLevel (Fin 100) = HighRisk"
  using determineRiskLevel_tiers [of 0] determineRiskLevel_tiers [of 39]
    determineRiskLevel_tiers [of 40] determineRiskLevel_tiers [of 100]
  by simp


text \<open>
  C7. For a settings record with a threshold, \<open>shouldSendImmediateAlert\<close> is true exactly
  when immediate alerts are switched on and the risk score is at least 70 or the amount is
  at least the threshold. (A record whose threshold is the empty string is read with the
  default threshold 100000.)
\<close>

theorem shouldSendImmediateAlert_gate:
  "threshold s \<noteq> [] \<Longrightarrow>
   shouldSendImmediateAlert score amt (Some s)
     = (immediateAlerts s \<and> (js_ge score (Fin 70) \<or> js_ge amt (parseFloat (threshold s))))"
  by (simp add: shouldSendImmediateAlert_def or_else_def Let_def)


theorem shouldSendImmediateAlert_gate_witness:
  "threshold open_gate \<noteq> []
   \<and> shouldSendImmediateAlert (Fin 20) (Fin 150000) (Some open_gate)
   \<and> \<not> shouldSendImmediateAlert (Fin 20) (Fin 150000) (Some (open_gate\<lparr>immediateAlerts := False\<rparr>))
   \<and> \<not> shouldSendImmediateAlert (Fin 20) (Fin 50000) (Some open_gate)"
  using shouldSendImmediateAlert_gate [of open_gate "Fin 20" "Fin 150000"]
    shouldSendImmediateAlert_gate [of "open_gate\<lparr>immediateAlerts := False\<rparr>" "Fin 20" "Fin 150000"]
    shouldSendImmediateAlert_gate [of open_gate "Fin 20" "Fin 50000"]
  by (simp add: open_gate_def parseFloat_100000 js_ge_def)


section \<open>The risk profiler: the cap on every score\<close>

lemma round_nonneg_in_range:
  assumes "0 \<le> x"
  shows "in_0_100 (js_min (js_round (Fin x)) (Fin 100))"
proof -
  have "0 \<le> \<lfloor>x + 1 / 2\<rfloor>" using assms by (simp add: le_floor_iff)
  then have "(0::rat) \<le> of_int \<lfloor>x + 1 / 2\<rfloor>" by simp
  then show ?thesis
    by (simp add: js_min_def in_0_100_def)
qed

lemma adjust_in_range:
  assumes "0 \<le> b" and "0 \<le> m"
  shows "in_0_100 (adjust (Fin b) (Fin m))"
  unfolding adjust_def using round_nonneg_in_range [of "b * m"] assms by simp

lemma multiplier_cases:
  "getDementiaRiskMultiplier stage \<in> {Fin 1, Fin (11 / 10), Fin (13 / 10), Fin (3 / 2)}"
  by (simp add: getDementiaRiskMultiplier_def Let_def)

lemma multiplier_nonneg: "\<exists>m. getDementiaRiskMultiplier stage = Fin m \<and> 0 \<le> m"
  using multiplier_cases [of stage] by auto

lemma frequencyBase_nonneg: "\<exists>b. frequencyBase w = Fin b \<and> 0 \<le> b"
  by (simp add: frequencyBase_def Let_def)

lemma amountBase_nonneg: "\<exists>b. amountBase p w = Fin b \<and> 0 \<le> b"
  by (simp add: amountBase_def Let_def)

lemma locationBase_nonneg: "\<exists>b. locationBase w = Fin b \<and> 0 \<le> b"
  by (simp add: locationBase_def Let_def)

lemma timingBase_nonneg: "\<exists>b. timingBase tz w = Fin b \<and> 0 \<le> b"
proof (cases "w = []")
  case True
  then show ?thesis by (simp add: timingBase_def)
next
  case False
  define q :: rat where "q = of_nat (length (nightTransactions tz w)) / of_nat (length w) * 100"
  have "0 \<le> q" by (simp add: q_def)
  then have "0 \<le> \<lfloor>q + 1 / 2\<rfloor>" by (simp add: le_floor_iff)
  moreover from False have "timingBase tz w = Fin (of_int \<lfloor>q + 1 / 2\<rfloor>)"
    by (simp add: timingBase_def of_length_def q_def)
  ultimately show ?thesis by simp
qed

lemma factors_in_range:
  "in_0_100 (frequencyFactor (RPS_calculateRiskFactors tz now p txs))
   \<and> in_0_100 (amountFactor (RPS_calculateRiskFactors tz now p txs))
   \<and> in_0_100 (timingFactor (RPS_calculateRiskFactors tz now p txs))
   \<and> in_0_100 (locationFactor (RPS_calculateRiskFactors tz now p txs))"
proof -
  obtain m where m: "getDementiaRiskMultiplier (dementiaStage p) = Fin m" "0 \<le> m"
    using multiplier_nonneg by blast
  obtain f where f: "frequencyBase (week_window now txs) = Fin f" "0 \<le> f"
    using frequencyBase_nonneg by blast
  obtain a where a: "amountBase p (week_window now txs) = Fin a" "0 \<le> a"
    using amountBase_nonneg by blast
  obtain t where t: "timingBase tz (week_window now txs) = Fin t" "0 \<le> t"
    using timingBase_nonneg by blast
  obtain l where l: "locationBase (week_window now txs) = Fin l" "0 \<le> l"
    using locationBase_nonneg by blast
  show ?thesis
    by (simp add: RPS_calculateRiskFactors_def Let_def m f a t l adjust_in_range)
qed

lemma in_0_100_Fin: "in_0_100 x \<Longrightarrow> \<exists>r. x = Fin r \<and> 0 \<le> r \<and> r \<le> 100"
  by (cases x) (simp_all add: in_0_100_def)

lemma calculateTotalScore_in_range:
  assumes "in_0_100 (frequencyFactor fs)" "in_0_100 (amountFactor fs)"
    "in_0_100 (timingFactor fs)" "in_0_100 (locationFactor fs)"
  shows "in_0_100 (calculateTotalScore fs)"
proof -
  obtain f where f: "frequencyFactor fs = Fin f" "0 \<le> f" "f \<le> 100"
    using in_0_100_Fin [OF assms(1)] by blast
  obtain a where a: "amountFactor fs = Fin a" "0 \<le> a" "a \<le> 100"
    using in_0_100_Fin [OF assms(2)] by blast
  obtain t where t: "timingFactor fs = Fin t" "0 \<le> t" "t \<le> 100"
    using in_0_100_Fin [OF assms(3)] by blast
  obtain l where l: "locationFactor fs = Fin l" "0 \<le> l" "l \<le> 100"
    using in_0_100_Fin [OF assms(4)] by blast
  define w where "w = f * (3 / 10) + a * (4 / 10) + t * (15 / 100) + l * (15 / 100)"
  have w: "0 \<le> w" "w \<le> 100"
    using f a t l by (simp_all add: w_def)
  have "calculateTotalScore fs = Fin (of_int \<lfloor>w + 1 / 2\<rfloor>)"
    by (simp add: calculateTotalScore_def f a t l w_def)
  moreover have "0 \<le> \<lfloor>w + 1 / 2\<rfloor>" using w by (simp add: le_floor_iff)
  moreover have "\<lfloor>w + 1 / 2\<rfloor> \<le> 100" using w by (simp add: floor_le_iff)
  ultimately show ?thesis
    by (simp add: in_0_100_def)
qed

text \<open>
  C4. The cap invariant: the risk score of the anomaly scorer lies between 0 and 100, and
  so do the total score of the risk profiler and each of its four factor scores.
\<close>

theorem score_caps:
  "0 \<le> riskScore (detectAnomaly tz tx xs avg)
   \<and> riskScore (detectAnomaly tz tx xs avg) \<le> 100
   \<and> in_0_100 (totalScore (assessRisk tz now p txs))
   \<and> in_0_100 (frequencyFactor (factors (assessRisk tz now p txs)))
   \<and> in_0_100 (amountFactor (factors (assessRisk tz now p txs)))
   \<and> in_0_100 (timingFactor (factors (assessRisk tz now p txs)))
   \<and> in_0_100 (locationFactor (factors (assessRisk tz now p txs)))"
proof -
  note fr = factors_in_range [of tz now p txs]
  have "in_0_100 (calculateTotalScore (RPS_calculateRiskFactors tz now p txs))"
    using fr by (intro calculateTotalScore_in_range) simp_all
  then show ?thesis
    using fr riskScore_bounds [of tz tx xs avg] by (simp add: assessRisk_def Let_def)
qed

theorem score_caps_witness:
  "0 \<le> riskScore (detectAnomaly 0 night_withdrawal [] (Fin 100000))
   \<and> riskScore (detectAnomaly 0 night_withdrawal [] (Fin 100000)) \<le> 100
   \<and> in_0_100 (totalScore (assessRisk 0 7200000 severe_patient [stored_withdrawal]))
   \<and> in_0_100 (frequencyFactor (factors (assessRisk 0 7200000 severe_patient [stored_withdrawal])))
   \<and> in_0_100 (amountFactor (factors (assessRisk 0 7200000 severe_patient [stored_withdrawal])))
   \<and> in_0_100 (timingFactor (factors (assessRisk 0 7200000 severe_patient [stored_withdrawal])))
   \<and> in_0_100 (locationFactor (factors (assessRisk 0 7200000 severe_patient [stored_withdrawal])))"
  by (rule score_caps)


section \<open>The risk profiler: the dementia multiplier\<close>

lemma round_scaled:
  "js_round (js_mul (num k) (Fin (of_int n / 10))) = num ((n * k + 5) div 10)"
proof -
  have "(of_int k * (of_int n / 10) + 1 / 2 :: rat) = of_int (n * k + 5) / of_int 10"
    by simp
  then have "\<lfloor>(of_int k * (of_int n / 10) + 1 / 2 :: rat)\<rfloor> = (n * k + 5) div 10"
    by (simp only: floor_divide_of_int_eq)
  then show ?thesis
    by (simp add: num_def)
qed

lemma min_num_100: "js_min (num a) (Fin 100) = num (min a 100)"
  by (simp add: js_min_def num_def min_def)

lemma adjust_scaled: "adjust (num k) (Fin (of_int n / 10)) = num (min ((n * k + 5) div 10) 100)"
  by (simp only: adjust_def round_scaled min_num_100)

lemma multiplier_mild: "getDementiaRiskMultiplier stage_mild = Fin (of_int 11 / 10)"
  by (simp add: getDementiaRiskMultiplier_def stage_mild_def truthy_def or_else_def
        toLowerCase_def lower_unit_def)

lemma multiplier_moderate: "getDementiaRiskMultiplier stage_moderate = Fin (of_int 13 / 10)"
  by (simp add: getDementiaRiskMultiplier_def stage_moderate_def truthy_def or_else_def
        toLowerCase_def lower_unit_def)

lemma multiplier_severe: "getDementiaRiskMultiplier stage_severe = Fin (of_int 15 / 10)"
  by (simp add: getDementiaRiskMultiplier_def stage_severe_def truthy_def or_else_def
        toLowerCase_def lower_unit_def)

lemma div10_mono: "(x::int) \<le> y \<Longrightarrow> x div 10 \<le> y div 10"
  by (rule zdiv_mono1) simp_all

lemma div10_step: "(x::int) + 10 \<le> y \<Longrightarrow> x div 10 < y div 10"
proof -
  assume "x + 10 \<le> y"
  then have "(x + 10) div 10 \<le> y div 10" by (rule div10_mono)
  moreover have "(x + 10) div 10 = x div 10 + 1" by simp
  ultimately show ?thesis by simp
qed

lemma rounded_step:
  assumes "3 \<le> (k::int)" and "n = 11 \<or> n = 13"
  shows "(n * k + 5) div 10 < ((n + 2) * k + 5) div 10"
proof (cases "5 \<le> k")
  case True
  then have "n * k + 5 + 10 \<le> (n + 2) * k + 5" by (simp add: algebra_simps)
  then show ?thesis by (rule div10_step)
next
  case False
  with assms(1) have "k = 3 \<or> k = 4" by linarith
  with assms(2) show ?thesis by auto
qed

lemma week_window_Nil: "week_window now [] = []"
  by (simp add: week_window_def)

lemma timingBase_Nil: "timingBase tz [] = Fin 0"
  by (simp add: timingBase_def)

lemma adjust_zero: "adjust (Fin 0) (Fin m) = Fin 0"
  by (simp add: adjust_def js_min_def floor_eq_iff)

text \<open>
  C9, as the code has it. For a whole base score of at least 0, the adjusted score is a
  whole number that does not decrease from the mild stage (1.1) to the moderate (1.3) to
  the severe one (1.5) and never exceeds 100. For a base score of at least 3 each step is
  a strict increase as long as the smaller of the two adjusted scores is below the cap of
  100. (For the base scores 0, 1 and 2 rounding makes two stages agree.)
\<close>

theorem dementia_multiplier_monotone:
  assumes "0 \<le> k"
  shows "\<exists>a b c.
           adjust (num k) (getDementiaRiskMultiplier stage_mild) = num a
         \<and> adjust (num k) (getDementiaRiskMultiplier stage_moderate) = num b
         \<and> adjust (num k) (getDementiaRiskMultiplier stage_severe) = num c
         \<and> 0 \<le> a \<and> a \<le> b \<and> b \<le> c \<and> c \<le> 100
         \<and> (3 \<le> k \<longrightarrow> (a < 100 \<longrightarrow> a < b) \<and> (b < 100 \<longrightarrow> b < c))"
proof -
  define a where "a = min ((11 * k + 5) div 10) 100"
  define b where "b = min ((13 * k + 5) div 10) 100"
  define c where "c = min ((15 * k + 5) div 10) 100"
  have eqs: "adjust (num k) (getDementiaRiskMultiplier stage_mild) = num a"
    "adjust (num k) (getDementiaRiskMultiplier stage_moderate) = num b"
    "adjust (num k) (getDementiaRiskMultiplier stage_severe) = num c"
    by (simp_all only: multiplier_mild multiplier_moderate multiplier_severe adjust_scaled
          a_def b_def c_def)
  have "0 div 10 \<le> (11 * k + 5) div 10"
    using assms by (intro div10_mono) simp
  then have a0: "0 \<le> a" by (simp add: a_def)
  have "(11 * k + 5) div 10 \<le> (13 * k + 5) div 10"
    using assms by (intro div10_mono) simp
  then have ab: "a \<le> b" by (simp add: a_def b_def)
  have "(13 * k + 5) div 10 \<le> (15 * k + 5) div 10"
    using assms by (intro div10_mono) simp
  then have bc: "b \<le> c" by (simp add: b_def c_def)
  have c100: "c \<le> 100" by (simp add: c_def)
  have strict: "(a < 100 \<longrightarrow> a < b) \<and> (b < 100 \<longrightarrow> b < c)" if k3: "3 \<le> k"
  proof -
    have "(11 * k + 5) div 10 < ((11 + 2) * k + 5) div 10"
      using k3 by (intro rounded_step) simp_all
    moreover have "(13 * k + 5) div 10 < ((13 + 2) * k + 5) div 10"
      using k3 by (intro rounded_step) simp_all
    ultimately show ?thesis by (auto simp: a_def b_def c_def min_def)
  qed
  from eqs a0 ab bc c100 strict show ?thesis by blast
qed

theorem dementia_multiplier_monotone_witness:
  "(0::int) \<le> 50 \<and> (3::int) \<le> 50
   \<and> adjust (num 50) (getDementiaRiskMultiplier stage_mild) = num 55
   \<and> adjust (num 50) (getDementiaRiskMultiplier stage_moderate) = num 65
   \<and> adjust (num 50) (getDementiaRiskMultiplier stage_severe) = num 75"
proof -
  have "(0::int) \<le> 50" by simp
  from dementia_multiplier_monotone [OF this]
  have "\<exists>a b c. adjust (num 50) (getDementiaRiskMultiplier stage_mild) = num a
         \<and> adjust (num 50) (getDementiaRiskMultiplier stage_moderate) = num b
         \<and> adjust (num 50) (getDementiaRiskMultiplier stage_severe) = num c" by blast
  then show ?thesis
    by (simp only: multiplier_mild multiplier_moderate multiplier_severe adjust_scaled) simp
qed

text \<open>
  C9 as stated fails: at base score 0, which the timing factor takes when no transaction of
  the week is at night, the mild and the moderate stage give the same adjusted score, and
  at base score 2 the moderate and the severe stage both give 3.
\<close>

theorem dementia_multiplier_counterexample:
  "\<not> js_lt (adjust (num 0) (getDementiaRiskMultiplier stage_mild))
            (adjust (num 0) (getDementiaRiskMultiplier stage_moderate))
   \<and> \<not> js_lt (timingFactor (RPS_calculateRiskFactors 0 0
                  (severe_patient\<lparr>dementiaStage := stage_mild\<rparr>) []))
              (timingFactor (RPS_calculateRiskFactors 0 0
                  (severe_patient\<lparr>dementiaStage := stage_moderate\<rparr>) []))
   \<and> \<not> js_lt (adjust (num 2) (getDementiaRiskMultiplier stage_moderate))
              (adjust (num 2) (getDementiaRiskMultiplier stage_severe))"
proof -
  have z1: "adjust (num 0) (getDementiaRiskMultiplier stage_mild) = num 0"
    by (simp only: multiplier_mild adjust_scaled) simp
  have z2: "adjust (num 0) (getDementiaRiskMultiplier stage_moderate) = num 0"
    by (simp only: multiplier_moderate adjust_scaled) simp
  have t1: "adjust (num 2) (getDementiaRiskMultiplier stage_moderate) = num 3"
    by (simp only: multiplier_moderate adjust_scaled) simp
  have t2: "adjust (num 2) (getDementiaRiskMultiplier stage_severe) = num 3"
    by (simp only: multiplier_severe adjust_scaled) simp
  have f1: "timingFactor (RPS_calculateRiskFactors 0 0
              (severe_patient\<lparr>dementiaStage := stage_mild\<rparr>) []) = Fin 0"
    by (simp add: RPS_calculateRiskFactors_def Let_def week_window_Nil timingBase_Nil
          multiplier_mild adjust_zero)
  have f2: "timingFactor (RPS_calculateRiskFactors 0 0
              (severe_patient\<lparr>dementiaStage := stage_moderate\<rparr>) []) = Fin 0"
    by (simp add: RPS_calculateRiskFactors_def Let_def week_window_Nil timingBase_Nil
          multiplier_moderate adjust_zero)
  show ?thesis
    unfolding z1 z2 t1 t2 f1 f2 by (simp add: num_def)
qed


section \<open>The risk profiler: an empty week\<close>

lemma week_window_empty:
  assumes "\<forall>t\<in>set txs. timestamp t < now - 7 * 24 * 60 * 60 * 1000"
  shows "week_window now txs = []"
proof -
  have "\<forall>t\<in>set txs. \<not> now - 7 * 24 * 60 * 60 * 1000 \<le> timestamp t"
    using assms by auto
  then show ?thesis
    unfolding week_window_def by (simp only: filter_False)
qed

lemma ADS_timing_empty_week:
  assumes "week_window now txs = []"
  shows "timingScore (ADS_calculateRiskFactors tz now pid txs) = NaN"
  by (simp add: ADS_calculateRiskFactors_def Let_def assms of_length_def)

lemma RPS_timing_empty_week:
  assumes "week_window now txs = []"
  shows "timingFactor (RPS_calculateRiskFactors tz now p txs) = Fin 0"
proof -
  obtain m where m: "getDementiaRiskMultiplier (dementiaStage p) = Fin m"
    using multiplier_nonneg by blast
  show ?thesis
    by (simp add: RPS_calculateRiskFactors_def Let_def assms timingBase_Nil m adjust_zero)
qed

lemma old_payment:
  "\<forall>t\<in>set [morning_payment]. timestamp t < 700000000 - 7 * 24 * 60 * 60 * 1000"
  by (simp add: morning_payment_def)

text \<open>
  C10. When no supplied transaction lies in the trailing seven days, \<open>assessRisk\<close> still
  returns a well-defined profile: its timing factor is 0 and the other factors and the
  total are finite scores between 0 and 100, because the division by the number of the
  week's transactions is guarded. \<open>AnomalyDetectionService.calculateRiskFactors\<close> has no
  guard on the same division, and its timing score is NaN on the same input.
\<close>

theorem empty_week_guard:
  assumes "\<forall>t\<in>set txs. timestamp t < now - 7 * 24 * 60 * 60 * 1000"
  shows "timingFactor (factors (assessRisk tz now p txs)) = Fin 0
         \<and> in_0_100 (frequencyFactor (factors (assessRisk tz now p txs)))
         \<and> in_0_100 (amountFactor (factors (assessRisk tz now p txs)))
         \<and> in_0_100 (locationFactor (factors (assessRisk tz now p txs)))
         \<and> in_0_100 (totalScore (assessRisk tz now p txs))
         \<and> timingScore (ADS_calculateRiskFactors tz now pid txs) = NaN"
proof -
  note w = week_window_empty [OF assms]
  note fr = factors_in_range [of tz now p txs]
  have tot: "in_0_100 (calculateTotalScore (RPS_calculateRiskFactors tz now p txs))"
    using fr by (intro calculateTotalScore_in_range) simp_all
  show ?thesis
    using fr tot RPS_timing_empty_week [OF w, of tz p] ADS_timing_empty_week [OF w, of tz pid]
    by (simp add: assessRisk_def Let_def)
qed

theorem empty_week_guard_witness:
  "timestamp morning_payment < 700000000 - 7 * 24 * 60 * 60 * 1000
   \<and> timingFactor (factors (assessRisk 0 700000000 severe_patient [morning_payment])) = Fin 0
   \<and> timingScore (ADS_calculateRiskFactors 0 700000000 1 [morning_payment]) = NaN"
  using empty_week_guard [OF old_payment, of 0 severe_patient 1] old_payment
  by simp

section \<open>The risk profiler: the timing factor\<close>

lemma hour_of_clock: "getHours tz ms = clock_ms tz ms div 3600000"
proof -
  define x where "x = ms + tz * 60000"
  have "x mod (3600000 * 24) = 3600000 * (x div 3600000 mod 24) + x mod 3600000"
    by (rule zmod_zmult2_eq) simp
  then have "x mod 86400000 = 3600000 * (x div 3600000 mod 24) + x mod 3600000"
    by simp
  then have "x mod 86400000 div 3600000 = x div 3600000 mod 24"
    by simp
  then show ?thesis
    by (simp add: getHours_def clock_ms_def x_def)
qed

lemma night_hour_window: "isNightHour (getHours tz ms) = code_inNightWindow tz ms"
proof -
  define c where "c = clock_ms tz ms"
  define h where "h = c div 3600000"
  define r where "r = c mod 3600000"
  have c: "c = 3600000 * h + r" by (simp add: h_def r_def)
  have r: "0 \<le> r" "r < 3600000" by (simp_all add: r_def)
  have "(22 \<le> h \<or> h \<le> 7) = (22 * 3600000 \<le> c \<or> c < 8 * 3600000)"
    using c r by linarith
  then show ?thesis
    by (simp add: isNightHour_def code_inNightWindow_def hour_of_clock c_def h_def)
qed

lemma nightTransactions_window:
  "nightTransactions tz w = filter (\<lambda>t. code_inNightWindow tz (timestamp t)) w"
  by (simp add: nightTransactions_def night_hour_window)

lemma round_close: "\<bar>of_int \<lfloor>q + 1 / 2\<rfloor> - q\<bar> \<le> (1 / 2 :: rat)"
proof -
  have "of_int \<lfloor>q + 1 / 2\<rfloor> \<le> q + 1 / 2" by (rule of_int_floor_le)
  moreover have "q + 1 / 2 < of_int \<lfloor>q + 1 / 2\<rfloor> + 1"
    using floor_correct [of "q + 1 / 2"] by simp
  ultimately show ?thesis by linarith
qed

lemma week_morning: "week_window 27000000 [morning_payment] = [morning_payment]"
  by (simp add: week_window_def morning_payment_def)

lemma clock_morning: "clock_ms 0 (timestamp morning_payment) = 27000000"
  by (simp add: clock_ms_def morning_payment_def)

lemma night_morning: "nightTransactions 0 [morning_payment] = [morning_payment]"
  by (simp add: nightTransactions_window code_inNightWindow_def clock_morning)

lemma timingBase_morning: "timingBase 0 [morning_payment] = Fin 100"
  by (simp add: timingBase_def night_morning of_length_def floor_eq_iff)

text \<open>
  C8, as the code has it. The timing factor is the adjusted timing base score of the
  transactions of the trailing seven days. The night count is the number of transactions
  whose local clock time lies from 22:00 up to, not including, 08:00, so that a transaction
  outside this window adds nothing to it. The timing base score is 0 for an empty week and
  otherwise the whole number nearest to the percentage of night transactions.
\<close>

theorem timing_base_rounded_share:
  "timingFactor (RPS_calculateRiskFactors tz now p txs)
      = adjust (timingBase tz (week_window now txs)) (getDementiaRiskMultiplier (dementiaStage p))
   \<and> timingBase tz [] = Fin 0
   \<and> length (nightTransactions tz w)
        = length (filter (\<lambda>t. code_inNightWindow tz (timestamp t)) w)
   \<and> (w \<noteq> [] \<longrightarrow>
        (\<exists>k. timingBase tz w = num k
           \<and> \<bar>of_int k - 100 * rat_of_nat (length (filter (\<lambda>t. code_inNightWindow tz (timestamp t)) w))
                             / rat_of_nat (length w)\<bar> \<le> 1 / 2))"
proof -
  define q :: rat where
    "q = 100 * rat_of_nat (length (filter (\<lambda>t. code_inNightWindow tz (timestamp t)) w))
           / rat_of_nat (length w)"
  have base: "timingBase tz w = num \<lfloor>q + 1 / 2\<rfloor>" if "w \<noteq> []"
    using that
    by (simp add: timingBase_def of_length_def nightTransactions_window q_def num_def
          mult.commute)
  have close: "\<bar>of_int \<lfloor>q + 1 / 2\<rfloor>
                 - 100 * rat_of_nat (length (filter (\<lambda>t. code_inNightWindow tz (timestamp t)) w))
                     / rat_of_nat (length w)\<bar> \<le> 1 / 2"
    using round_close [of q] unfolding q_def .
  have fac: "timingFactor (RPS_calculateRiskFactors tz now p txs)
      = adjust (timingBase tz (week_window now txs)) (getDementiaRiskMultiplier (dementiaStage p))"
    by (simp add: RPS_calculateRiskFactors_def Let_def)
  from base close fac show ?thesis
    by (auto simp: timingBase_Nil nightTransactions_window)
qed

theorem timing_base_rounded_share_witness:
  "[morning_payment] \<noteq> []
   \<and> timingBase 0 [morning_payment] = num 100
   \<and> length (nightTransactions 0 [morning_payment]) = 1"
  using timing_base_rounded_share [of 0 0 severe_patient "[]" "[morning_payment]"]
  by (simp add: timingBase_morning night_morning num_def)

text \<open>
  C8 as stated fails: a payment at 07:30 lies outside the window from 22:00 to 07:00, yet it
  is counted as a night transaction and gives the timing base score 100 where the
  percentage of the stated window is 0; and with one night transaction out of three the
  base score is 33, not the percentage 100/3.
\<close>

theorem timing_window_counterexample:
  "\<not> spec_inNightWindow 0 (timestamp morning_payment)
   \<and> week_window 27000000 [morning_payment] = [morning_payment]
   \<and> length (nightTransactions 0 (week_window 27000000 [morning_payment])) = 1
   \<and> timingBase 0 (week_window 27000000 [morning_payment]) = Fin 100
   \<and> spec_nightPercentage 0 (week_window 27000000 [morning_payment]) = Fin 0
   \<and> timingBase 0 [stored_withdrawal, noon_payment, noon_payment] = Fin 33
   \<and> spec_nightPercentage 0 [stored_withdrawal, noon_payment, noon_payment] = Fin (100 / 3)"
proof -
  have spec: "\<not> spec_inNightWindow 0 (timestamp morning_payment)"
    by (simp add: spec_inNightWindow_def clock_morning)
  have pct: "spec_nightPercentage 0 [morning_payment] = Fin 0"
    by (simp add: spec_nightPercentage_def spec of_length_def)
  have cw: "clock_ms 0 (timestamp stored_withdrawal) = 7200000"
    by (simp add: clock_ms_def stored_withdrawal_def night_withdrawal_def candidate.defs)
  have cn: "clock_ms 0 (timestamp noon_payment) = 43200000"
    by (simp add: clock_ms_def noon_payment_def)
  have n3: "nightTransactions 0 [stored_withdrawal, noon_payment, noon_payment] = [stored_withdrawal]"
    by (simp add: nightTransactions_window code_inNightWindow_def cw cn)
  have tb3: "timingBase 0 [stored_withdrawal, noon_payment, noon_payment] = Fin 33"
    by (simp add: timingBase_def n3 of_length_def floor_eq_iff)
  have sp3: "spec_nightPercentage 0 [stored_withdrawal, noon_payment, noon_payment] = Fin (100 / 3)"
    by (simp add: spec_nightPercentage_def spec_inNightWindow_def cw cn of_length_def)
  show ?thesis
    by (simp add: spec week_morning night_morning timingBase_morning pct tb3 sp3)
qed


section \<open>The ingestion route\<close>

lemma parseFloat_900000: "parseFloat [57, 48, 48, 48, 48, 48] = Fin 900000"
  by (simp add: parseFloat_def parse_unsigned_def isDigit_def isWhiteSpace_def
        digits_value_def scale10_def exponent_part_def)

lemma getPatient_muted: "getPatient muted_store 1 = Some severe_patient"
  by (simp add: getPatient_def muted_store_def severe_patient_def)

lemma getTransactions_muted: "getTransactions muted_store 1 20 = []"
  by (simp add: getTransactions_def muted_store_def)

lemma night_withdrawal_patient: "night_withdrawal\<lparr>patientId := 1\<rparr> = night_withdrawal"
  by (simp add: night_withdrawal_def)

lemma avgSpending_severe:
  "js_div (parseFloat (or_else (avgMonthlySpending severe_patient) [48])) (Fin 30) = Fin 30000"
  by (simp add: severe_patient_def or_else_def parseFloat_900000)

lemma detectAnomaly_daily_average:
  "detectAnomaly 0 night_withdrawal [] (Fin 30000) =
     \<lparr> isAnomaly = True, riskScore = 95,
       reasons = [OverAverage (Fin 40), LargeAmount, NightTime] \<rparr>"
proof -
  have amt: "analyzeAmount (amount night_withdrawal) (Fin 30000) []
               = (75, [OverAverage (Fin 40), LargeAmount])"
    by (simp add: analyzeAmount_def night_withdrawal_def parseFloat_1200000 js_gt_def
          js_ge_def Let_def floor_eq_iff)
  have freq: "analyzeFrequency night_withdrawal [] = (0, [])"
    by (simp add: analyzeFrequency_def Let_def)
  have tim: "analyzeTime 0 (timestamp night_withdrawal) = (20, [NightTime])"
    by (rule analyzeTime_hour_2) (rule getHours_night_withdrawal)
  have mer: "analyzeMerchant (merchant night_withdrawal) (description night_withdrawal) = (0, [])"
    by (simp add: night_withdrawal_def analyzeMerchant_absent)
  have loc: "analyzeLocation (location night_withdrawal) [] = (0, [])"
    by (simp add: night_withdrawal_def analyzeLocation_absent)
  show ?thesis
    by (simp add: detectAnomaly_def Let_def amt freq tim mer loc)
qed

lemma createTransaction_muted:
  "createTransaction muted_store night_withdrawal True 95 =
     (stored_withdrawal,
      muted_store\<lparr> transactions := [stored_withdrawal], transactionSeq := 2 \<rparr>)"
  by (simp add: createTransaction_def Let_def stored_withdrawal_def muted_store_def)

lemma stored_fields:
  "timestamp stored_withdrawal = 7200000" "location stored_withdrawal = None"
  "amount stored_withdrawal = [49, 50, 48, 48, 48, 48, 48]" "tx_id stored_withdrawal = 1"
  "txType stored_withdrawal = str_ATM" "tx_isAnomaly stored_withdrawal = True"
  by (simp_all add: stored_withdrawal_def night_withdrawal_def candidate.defs)

lemma week_stored: "week_window 7200000 [stored_withdrawal] = [stored_withdrawal]"
  by (simp add: week_window_def stored_fields)

lemma ADS_stored:
  "ADS_calculateRiskFactors 0 7200000 pid [stored_withdrawal] =
     \<lparr> frequencyScore = Fin 3, amountScore = Fin 100, timingScore = Fin 100,
       locationScore = Fin 0 \<rparr>"
  by (simp add: ADS_calculateRiskFactors_def Let_def week_stored of_length_def stored_fields
        parseFloat_1200000 sum_amounts_def js_min_def unique_locations_def truthy_def
        getHours_def floor_eq_iff)

lemma averageScore_stored:
  "averageScore \<lparr> frequencyScore = Fin 3, amountScore = Fin 100, timingScore = Fin 100,
       locationScore = Fin 0 \<rparr> = Fin 51"
  by (simp add: averageScore_def floor_eq_iff)

lemma int_column_whole: "- 2147483648 \<le> k \<Longrightarrow> k \<le> 2147483647 \<Longrightarrow> int_column (Fin (of_int k)) = Some k"
  by (simp add: int_column_def)

lemma int_columns_stored:
  "int_column (Fin 3) = Some 3" "int_column (Fin 100) = Some 100"
  "int_column (Fin 0) = Some 0" "int_column (Fin 51) = Some 51"
  using int_column_whole [of 3] int_column_whole [of 100] int_column_whole [of 0]
    int_column_whole [of 51]
  by simp_all

lemma postTransaction_muted:
  "postTransaction 0 7200000 muted_store 1 night_withdrawal =
     (Created stored_withdrawal
        \<lparr> isAnomaly = True, riskScore = 95,
          reasons = [OverAverage (Fin 40), LargeAmount, NightTime] \<rparr>,
      muted_store_after)"
proof -
  have alert: "alertTypeOf 95 = str_urgent" by (simp add: alertTypeOf_def)
  have prio: "getAlertPriority (level_string HighRisk) = PriorityHigh"
    by (simp add: getAlertPriority_def)
  have lev: "newRiskLevelOf (Fin 51) = level_string MediumRisk"
    by (simp add: newRiskLevelOf_def js_ge_def)
  have fields: "alerts muted_store = []" "alertSeq muted_store = 1"
    "riskAssessments muted_store = []" "assessmentSeq muted_store = 1"
    "patients muted_store = [severe_patient]"
    by (simp_all add: muted_store_def)
  have pid: "p_id severe_patient = 1" by (simp add: severe_patient_def)
  have "postTransaction 0 7200000 muted_store 1 night_withdrawal =
     (Created stored_withdrawal
        \<lparr> isAnomaly = True, riskScore = 95,
          reasons = [OverAverage (Fin 40), LargeAmount, NightTime] \<rparr>,
      muted_store
        \<lparr> transactions := [stored_withdrawal], transactionSeq := 2,
          alerts := [\<lparr> a_id = 1, a_patientId = 1, a_transactionId = Some 1, a_type = str_urgent,
            a_title = str_urgent @ [58, 32] @ str_ATM @ [32, 44144, 47000, 32, 44048, 51648],
            a_severity = PriorityHigh \<rparr>],
          alertSeq := 2,
          riskAssessments := [\<lparr> ra_id = 1, ra_patientId = 1, ra_frequencyScore = 3,
            ra_amountScore = 100, ra_timingScore = 100, ra_locationScore = 0,
            ra_totalScore = 51 \<rparr>],
          assessmentSeq := 2,
          patients := [severe_patient\<lparr> p_riskLevel := level_string MediumRisk \<rparr>] \<rparr>)"
    unfolding postTransaction_def Let_def night_withdrawal_patient getPatient_muted
      getTransactions_muted option.case avgSpending_severe detectAnomaly_daily_average
    by (simp add: createTransaction_muted alert prio ADS_stored averageScore_stored
          createRiskAssessment_def int_columns_stored createAlert_def updatePatient_def
          stored_fields lev fields pid)
  then show ?thesis
    by (simp add: muted_store_def muted_store_after_def)
qed


lemma assessRisk_stored:
  "factors (assessRisk 0 7200000 severe_patient [stored_withdrawal]) =
     \<lparr> frequencyFactor = Fin 23, amountFactor = Fin 100, timingFactor = Fin 100,
       locationFactor = Fin 30 \<rparr>
   \<and> totalScore (assessRisk 0 7200000 severe_patient [stored_withdrawal]) = Fin 66"
proof -
  have mult: "getDementiaRiskMultiplier (dementiaStage severe_patient) = Fin (3 / 2)"
    using multiplier_severe by (simp add: severe_patient_def)
  have fb: "frequencyBase [stored_withdrawal] = Fin 15"
    by (simp add: frequencyBase_def of_length_def js_gt_def)
  have ab: "amountBase severe_patient [stored_withdrawal] = Fin 85"
    by (simp add: amountBase_def Let_def stored_fields parseFloat_1200000 sum_amounts_def
          severe_patient_def or_else_def parseFloat_900000 js_gt_def)
  have nt: "nightTransactions 0 [stored_withdrawal] = [stored_withdrawal]"
    by (simp add: nightTransactions_def isNightHour_def getHours_def stored_fields)
  have tb: "timingBase 0 [stored_withdrawal] = Fin 100"
    by (simp add: timingBase_def nt of_length_def floor_eq_iff)
  have lb: "locationBase [stored_withdrawal] = Fin 20"
    by (simp add: locationBase_def unique_locations_def stored_fields truthy_def)
  have fs: "RPS_calculateRiskFactors 0 7200000 severe_patient [stored_withdrawal] =
     \<lparr> frequencyFactor = Fin 23, amountFactor = Fin 100, timingFactor = Fin 100,
       locationFactor = Fin 30 \<rparr>"
    by (simp add: RPS_calculateRiskFactors_def Let_def week_stored mult fb ab tb lb adjust_def
          js_min_def floor_eq_iff)
  have tot: "calculateTotalScore \<lparr> frequencyFactor = Fin 23, amountFactor = Fin 100,
       timingFactor = Fin 100, locationFactor = Fin 30 \<rparr> = Fin 66"
    by (simp add: calculateTotalScore_def floor_eq_iff)
  show ?thesis
    by (simp add: assessRisk_def Let_def fs tot)
qed

text \<open>
  C1. With immediate alerts switched off in the patient's settings, posting the anomalous
  withdrawal still creates an alert row: the route fetches the settings and never reads
  them, while \<open>shouldSendImmediateAlert\<close>, which holds the gate, answers no on the same
  settings and is never called.
\<close>

theorem alert_created_with_alerts_off:
  "map as_immediateAlerts (alertSettings muted_store) = [Some False]
   \<and> getAlertSettings muted_store DEMO_USER_ID 1 \<noteq> None
   \<and> fst (postTransaction 0 7200000 muted_store 1 night_withdrawal)
       = Created stored_withdrawal
           \<lparr> isAnomaly = True, riskScore = 95,
             reasons = [OverAverage (Fin 40), LargeAmount, NightTime] \<rparr>
   \<and> alerts muted_store = []
   \<and> alerts (snd (postTransaction 0 7200000 muted_store 1 night_withdrawal))
       = [\<lparr> a_id = 1, a_patientId = 1, a_transactionId = Some 1, a_type = str_urgent,
            a_title = str_urgent @ [58, 32] @ str_ATM @ [32, 44144, 47000, 32, 44048, 51648],
            a_severity = PriorityHigh \<rparr>]
   \<and> \<not> shouldSendImmediateAlert (num 95) (Fin 1200000)
         (Some \<lparr> threshold = [49, 48, 48, 48, 48, 48], immediateAlerts = False \<rparr>)"
  unfolding postTransaction_muted
  by (simp add: muted_store_after_def muted_store_def getAlertSettings_def
        shouldSendImmediateAlert_def)


lemma int_column_Some:
  assumes "int_column x = Some k"
  shows "x = num k"
proof (cases x)
  case (Fin r)
  with assms have "r = of_int \<lfloor>r\<rfloor>" and "k = \<lfloor>r\<rfloor>"
    by (simp_all add: int_column_def split: if_splits)
  with Fin show ?thesis by (simp add: num_def)
qed (use assms in \<open>simp_all add: int_column_def\<close>)

lemma createRiskAssessment_Some:
  assumes "createRiskAssessment st pid scores score = Some st3"
  shows "\<exists>f a t l s.
           frequencyScore scores = num f \<and> amountScore scores = num a
         \<and> timingScore scores = num t \<and> locationScore scores = num l \<and> score = num s
         \<and> st3 = st\<lparr> riskAssessments := riskAssessments st @
                       [\<lparr> ra_id = assessmentSeq st, ra_patientId = pid,
                          ra_frequencyScore = f, ra_amountScore = a, ra_timingScore = t,
                          ra_locationScore = l, ra_totalScore = s \<rparr>],
                     assessmentSeq := Suc (assessmentSeq st) \<rparr>"
proof -
  from assms obtain f a t l s where
    cols: "int_column (frequencyScore scores) = Some f" "int_column (amountScore scores) = Some a"
      "int_column (timingScore scores) = Some t" "int_column (locationScore scores) = Some l"
      "int_column score = Some s"
    and st3: "st3 = st\<lparr> riskAssessments := riskAssessments st @
                       [\<lparr> ra_id = assessmentSeq st, ra_patientId = pid,
                          ra_frequencyScore = f, ra_amountScore = a, ra_timingScore = t,
                          ra_locationScore = l, ra_totalScore = s \<rparr>],
                     assessmentSeq := Suc (assessmentSeq st) \<rparr>"
    by (auto simp: createRiskAssessment_def split: option.splits)
  from cols [THEN int_column_Some] st3 show ?thesis by blast
qed

lemma averageScore_whole:
  assumes "frequencyScore rf = num f" "amountScore rf = num a"
    "timingScore rf = num t" "locationScore rf = num l"
  shows "averageScore rf = num ((f + a + t + l + 2) div 4)"
proof -
  have "(of_int f + of_int a + of_int t + of_int l) / 4 + 1 / 2
          = (of_int (f + a + t + l + 2) :: rat) / of_int 4"
    by simp
  then have "\<lfloor>(of_int f + of_int a + of_int t + of_int l) / 4 + 1 / (2 :: rat)\<rfloor>
               = (f + a + t + l + 2) div 4"
    by (simp only: floor_divide_of_int_eq)
  then show ?thesis
    by (simp add: averageScore_def assms num_def)
qed

lemma newRiskLevelOf_whole:
  "newRiskLevelOf (num s)
     = level_string (if 70 \<le> s then HighRisk else if 40 \<le> s then MediumRisk else LowRisk)"
  by (simp add: newRiskLevelOf_def js_ge_def num_def)

lemma createAlert_keeps:
  "riskAssessments (createAlert st pid txid ty title sev) = riskAssessments st"
  "assessmentSeq (createAlert st pid txid ty title sev) = assessmentSeq st"
  "patients (createAlert st pid txid ty title sev) = patients st"
  by (simp_all add: createAlert_def)

lemma createTransaction_keeps:
  "riskAssessments (snd (createTransaction st c b n)) = riskAssessments st"
  "assessmentSeq (snd (createTransaction st c b n)) = assessmentSeq st"
  "patients (snd (createTransaction st c b n)) = patients st"
  by (simp_all add: createTransaction_def Let_def)

lemma postTransaction_anomaly:
  assumes post: "postTransaction tz now st pid body = (Created tx res, st')"
    and anomaly: "isAnomaly res"
  shows "\<exists>st2 st3.
           riskAssessments st2 = riskAssessments st \<and> assessmentSeq st2 = assessmentSeq st
         \<and> patients st2 = patients st
         \<and> createRiskAssessment st2 pid
              (ADS_calculateRiskFactors tz now pid (getTransactions st pid 20 @ [tx]))
              (averageScore
                 (ADS_calculateRiskFactors tz now pid (getTransactions st pid 20 @ [tx])))
              = Some st3
         \<and> st' = updatePatient st3 pid
                    (newRiskLevelOf (averageScore
                       (ADS_calculateRiskFactors tz now pid (getTransactions st pid 20 @ [tx]))))"
proof -
  obtain p where gp: "getPatient st pid = Some p"
    using post by (cases "getPatient st pid") (simp_all add: postTransaction_def Let_def)
  define r0 where "r0 = detectAnomaly tz (body\<lparr>patientId := pid\<rparr>) (getTransactions st pid 20)
      (js_div (parseFloat (or_else (avgMonthlySpending p) [48])) (Fin 30))"
  define cr where "cr = createTransaction st (body\<lparr>patientId := pid\<rparr>) (isAnomaly r0) (riskScore r0)"
  define st2 where "st2 = createAlert (snd cr) pid (tx_id (fst cr)) (alertTypeOf (riskScore r0))
      (alertTypeOf (riskScore r0) @ [58, 32] @ txType (fst cr)
         @ [32, 44144, 47000, 32, 44048, 51648])
      (getAlertPriority (if alertTypeOf (riskScore r0) = str_urgent then level_string HighRisk
                         else alertTypeOf (riskScore r0)))"
  define rf where "rf = ADS_calculateRiskFactors tz now pid (getTransactions st pid 20 @ [fst cr])"
  have eq: "postTransaction tz now st pid body =
      (if isAnomaly r0 then
         (case createRiskAssessment st2 pid rf (averageScore rf) of
            None \<Rightarrow> (ServerError, st2)
          | Some st3 \<Rightarrow> (Created (fst cr) r0,
                         updatePatient st3 pid (newRiskLevelOf (averageScore rf))))
       else (Created (fst cr) r0, snd cr))"
    by (simp only: postTransaction_def Let_def gp option.case r0_def cr_def st2_def rf_def)
  have r0: "isAnomaly r0"
  proof (rule ccontr)
    assume "\<not> isAnomaly r0"
    with eq post have "res = r0" by simp
    with anomaly \<open>\<not> isAnomaly r0\<close> show False by simp
  qed
  from eq post r0 obtain st3 where
    cra: "createRiskAssessment st2 pid rf (averageScore rf) = Some st3"
    and tx: "tx = fst cr"
    and st': "st' = updatePatient st3 pid (newRiskLevelOf (averageScore rf))"
    by (cases "createRiskAssessment st2 pid rf (averageScore rf)") simp_all
  have keep: "riskAssessments st2 = riskAssessments st" "assessmentSeq st2 = assessmentSeq st"
    "patients st2 = patients st"
    by (simp_all add: st2_def cr_def createAlert_keeps createTransaction_keeps)
  from keep cra st' show ?thesis
    unfolding rf_def tx by blast
qed

text \<open>
  C2, as the code has it. When the route answers with the created transaction and the
  transaction is an anomaly, the snapshot it appends holds the four scores of
  \<open>AnomalyDetectionService.calculateRiskFactors\<close> over the widened history (the patient's
  20 most recent transactions and the new one), its total score is their plain average
  rounded to the nearest whole number, and the patient's risk level is set from that total:
  high from 70, medium from 40, low below.
\<close>

theorem snapshot_is_plain_average:
  assumes post: "postTransaction tz now st pid body = (Created tx res, st')"
    and anomaly: "isAnomaly res"
  shows "\<exists>f a t l.
           frequencyScore (ADS_calculateRiskFactors tz now pid (getTransactions st pid 20 @ [tx]))
             = num f
         \<and> amountScore (ADS_calculateRiskFactors tz now pid (getTransactions st pid 20 @ [tx]))
             = num a
         \<and> timingScore (ADS_calculateRiskFactors tz now pid (getTransactions st pid 20 @ [tx]))
             = num t
         \<and> locationScore (ADS_calculateRiskFactors tz now pid (getTransactions st pid 20 @ [tx]))
             = num l
         \<and> riskAssessments st' = riskAssessments st @
              [\<lparr> ra_id = assessmentSeq st, ra_patientId = pid,
                 ra_frequencyScore = f, ra_amountScore = a, ra_timingScore = t,
                 ra_locationScore = l, ra_totalScore = (f + a + t + l + 2) div 4 \<rparr>]
         \<and> patients st' =
              map (\<lambda>p. if p_id p = pid
                        then p\<lparr> p_riskLevel := level_string
                               (if 70 \<le> (f + a + t + l + 2) div 4 then HighRisk
                                else if 40 \<le> (f + a + t + l + 2) div 4 then MediumRisk
                                else LowRisk) \<rparr>
                        else p)
                  (patients st)"
proof -
  define rf where "rf = ADS_calculateRiskFactors tz now pid (getTransactions st pid 20 @ [tx])"
  from postTransaction_anomaly [OF post anomaly] obtain st2 st3 where
    keep: "riskAssessments st2 = riskAssessments st" "assessmentSeq st2 = assessmentSeq st"
      "patients st2 = patients st"
    and cra: "createRiskAssessment st2 pid rf (averageScore rf) = Some st3"
    and st': "st' = updatePatient st3 pid (newRiskLevelOf (averageScore rf))"
    unfolding rf_def by blast
  from createRiskAssessment_Some [OF cra] obtain f a t l s where
    sc: "frequencyScore rf = num f" "amountScore rf = num a" "timingScore rf = num t"
      "locationScore rf = num l"
    and avg: "averageScore rf = num s"
    and st3: "st3 = st2\<lparr> riskAssessments := riskAssessments st2 @
                       [\<lparr> ra_id = assessmentSeq st2, ra_patientId = pid,
                          ra_frequencyScore = f, ra_amountScore = a, ra_timingScore = t,
                          ra_locationScore = l, ra_totalScore = s \<rparr>],
                     assessmentSeq := Suc (assessmentSeq st2) \<rparr>"
    by blast
  have "num s = num ((f + a + t + l + 2) div 4)"
    using averageScore_whole [OF sc] avg by simp
  then have s: "s = (f + a + t + l + 2) div 4"
    by (simp add: num_def)
  have ra: "riskAssessments st' = riskAssessments st @
              [\<lparr> ra_id = assessmentSeq st, ra_patientId = pid,
                 ra_frequencyScore = f, ra_amountScore = a, ra_timingScore = t,
                 ra_locationScore = l, ra_totalScore = (f + a + t + l + 2) div 4 \<rparr>]"
    by (simp add: st' st3 updatePatient_def keep s)
  have pa: "patients st' =
              map (\<lambda>p. if p_id p = pid
                        then p\<lparr> p_riskLevel := level_string
                               (if 70 \<le> (f + a + t + l + 2) div 4 then HighRisk
                                else if 40 \<le> (f + a + t + l + 2) div 4 then MediumRisk
                                else LowRisk) \<rparr>
                        else p)
                  (patients st)"
    unfolding st' avg newRiskLevelOf_whole by (simp add: st3 updatePatient_def keep s)
  from sc ra pa show ?thesis
    unfolding rf_def by blast
qed


theorem snapshot_is_plain_average_witness:
  "postTransaction 0 7200000 muted_store 1 night_withdrawal
     = (Created stored_withdrawal
          \<lparr> isAnomaly = True, riskScore = 95,
            reasons = [OverAverage (Fin 40), LargeAmount, NightTime] \<rparr>,
        muted_store_after)
   \<and> isAnomaly \<lparr> isAnomaly = True, riskScore = 95,
                  reasons = [OverAverage (Fin 40), LargeAmount, NightTime] \<rparr>
   \<and> riskAssessments muted_store_after = riskAssessments muted_store @
        [\<lparr> ra_id = assessmentSeq muted_store, ra_patientId = 1,
           ra_frequencyScore = 3, ra_amountScore = 100, ra_timingScore = 100,
           ra_locationScore = 0, ra_totalScore = (3 + 100 + 100 + 0 + 2) div 4 \<rparr>]"
proof -
  have an: "isAnomaly \<lparr> isAnomaly = True, riskScore = 95,
                  reasons = [OverAverage (Fin 40), LargeAmount, NightTime] \<rparr>"
    by simp
  from snapshot_is_plain_average [OF postTransaction_muted an] obtain f a t l where
    sc: "frequencyScore (ADS_calculateRiskFactors 0 7200000 1
            (getTransactions muted_store 1 20 @ [stored_withdrawal])) = num f"
      "amountScore (ADS_calculateRiskFactors 0 7200000 1
            (getTransactions muted_store 1 20 @ [stored_withdrawal])) = num a"
      "timingScore (ADS_calculateRiskFactors 0 7200000 1
            (getTransactions muted_store 1 20 @ [stored_withdrawal])) = num t"
      "locationScore (ADS_calculateRiskFactors 0 7200000 1
            (getTransactions muted_store 1 20 @ [stored_withdrawal])) = num l"
    and ra: "riskAssessments muted_store_after = riskAssessments muted_store @
        [\<lparr> ra_id = assessmentSeq muted_store, ra_patientId = 1,
           ra_frequencyScore = f, ra_amountScore = a, ra_timingScore = t,
           ra_locationScore = l, ra_totalScore = (f + a + t + l + 2) div 4 \<rparr>]"
    by blast
  from sc have "f = 3" "a = 100" "t = 100" "l = 0"
    unfolding getTransactions_muted append_Nil ADS_stored by (simp_all add: num_def)
  with ra postTransaction_muted an show ?thesis by simp
qed

text \<open>
  C2 as stated fails: for the withdrawal posted to the muted store the snapshot holds the
  scores 3, 100, 100, 0 and the total 51, where the risk profiler over the same widened
  history gives the factor scores 23, 100, 100, 30 and the weighted total 66.
\<close>

theorem snapshot_not_profiler_counterexample:
  "fst (postTransaction 0 7200000 muted_store 1 night_withdrawal)
       = Created stored_withdrawal
           \<lparr> isAnomaly = True, riskScore = 95,
             reasons = [OverAverage (Fin 40), LargeAmount, NightTime] \<rparr>
   \<and> riskAssessments (snd (postTransaction 0 7200000 muted_store 1 night_withdrawal))
       = [\<lparr> ra_id = 1, ra_patientId = 1, ra_frequencyScore = 3, ra_amountScore = 100,
            ra_timingScore = 100, ra_locationScore = 0, ra_totalScore = 51 \<rparr>]
   \<and> factors (assessRisk 0 7200000 severe_patient
         (getTransactions muted_store 1 20 @ [stored_withdrawal]))
       = \<lparr> frequencyFactor = Fin 23, amountFactor = Fin 100, timingFactor = Fin 100,
           locationFactor = Fin 30 \<rparr>
   \<and> totalScore (assessRisk 0 7200000 severe_patient
         (getTransactions muted_store 1 20 @ [stored_withdrawal])) = Fin 66"
  unfolding postTransaction_muted getTransactions_muted
  by (simp add: muted_store_after_def assessRisk_stored)

end
